theory Spec2Isabelle
  imports Main "HOL-Library.Multiset"
begin

section \<open>The data model of jquery.flot.compareseries.js\<close>

text \<open>
  The plugin works on JavaScript objects that Flot owns: the plot, its array of series
  (\<^verbatim>\<open>plot.getData()\<close>), each series object with its raw \<^verbatim>\<open>data\<close> array and its
  option groups \<^verbatim>\<open>bars\<close>, \<^verbatim>\<open>lines\<close>, \<^verbatim>\<open>points\<close> and \<^verbatim>\<open>compare\<close>.
  Objects that the code mutates or copies are kept in explicit stores and named by
  address, so that sharing between a series and its copies is visible:
  \<^item> series objects, in \<open>seriesStore\<close>;
  \<^item> the raw data arrays, in \<open>arrayStore\<close>;
  \<^item> the option groups \<^verbatim>\<open>bars\<close>, \<^verbatim>\<open>lines\<close>, \<^verbatim>\<open>points\<close>, in \<open>styleStore\<close>;
  \<^item> the objects that a property of an option group refers to (a gradient
    \<^verbatim>\<open>fillColor: { colors: [...] }\<close>, say), in \<open>objectStore\<close>. The plugin never reads or
    writes one of them; it copies the references to them.
  A store is a function from addresses together with the next free address;
  \<^verbatim>\<open>{}\<close>, \<^verbatim>\<open>[]\<close> and \<^verbatim>\<open>$.extend({}, x)\<close> allocate at the next free address.

  A point is the two-element array \<^verbatim>\<open>[x, y]\<close>, modelled as a pair; the code never writes
  into a point. Coordinates are numbers compared by \<^verbatim>\<open>>=\<close>; they are modelled by an
  arbitrary linearly ordered type \<open>'a\<close> (no NaN), and a property name made from a number
  is identified with that number.
  Attributes that the code only carries around (colours, labels, the point format, the
  remaining options of Flot) are values of type \<open>jsval\<close>.
\<close>

type_synonym addr = nat

datatype 'a jsval = Undefined | Null | Bool bool | Num 'a | Str string | Ref addr

type_synonym 'a point = "'a \<times> 'a"

text \<open>An option group \<^verbatim>\<open>series.bars\<close>, \<^verbatim>\<open>series.lines\<close> or \<^verbatim>\<open>series.points\<close>:
  the two flags the code reads or writes, and every other property of the group.\<close>

record 'a style =
  showFlag :: bool
  horizontal :: bool
  otherOpts :: "(string \<times> 'a jsval) list"

text \<open>The \<^verbatim>\<open>datapoints\<close> object handed to the \<^verbatim>\<open>processRawData\<close> hook.\<close>

record 'a datapoints =
  dp_points :: "'a list"
  pointsize :: "'a jsval"
  format :: "'a jsval"

text \<open>\<^verbatim>\<open>series.compare\<close>. The object \<^verbatim>\<open>{ enabled: false }\<close> that \<^verbatim>\<open>copySeries\<close>
  stores has no other property: \<open>None\<close> and \<open>Undefined\<close> stand for the absent ones.\<close>

record 'a compare =
  enabled :: bool
  seriesIndex :: "int option"
  colorAbove :: "'a jsval"
  colorBelow :: "'a jsval"

record 'a series =
  data :: addr
  datapoints :: "'a datapoints"
  label :: "'a jsval"
  bars :: addr
  lines :: addr
  points :: addr
  color :: "'a jsval"
  originSeries :: "addr option"
  compare :: "'a compare"
  otherProps :: "(string \<times> 'a jsval) list"

text \<open>The plot as the plugin sees it: the closure variable \<^verbatim>\<open>currentSeries\<close> of
  \<^verbatim>\<open>init\<close>, the array returned by \<^verbatim>\<open>plot.getData()\<close> (a list of series addresses),
  and the stores.\<close>

record 'a plot =
  currentSeries :: int
  getData :: "addr list"
  seriesStore :: "addr \<Rightarrow> 'a series"
  nextSeries :: addr
  arrayStore :: "addr \<Rightarrow> 'a point list"
  nextArray :: addr
  styleStore :: "addr \<Rightarrow> 'a style"
  nextStyle :: addr
  objectStore :: "addr \<Rightarrow> (string \<times> 'a jsval) list"

text \<open>The defaults of the plugin, \<^verbatim>\<open>options.series.compare\<close>, which Flot merges into
  every series.\<close>

definition options_series_compare :: "'a compare" where
  "options_series_compare =
     \<lparr>enabled = False, seriesIndex = Some 0,
      colorAbove = Str ''#FF0000'', colorBelow = Str ''#00FF00''\<rparr>"

text \<open>The initial value of the closure variable, \<^verbatim>\<open>var currentSeries = -1\<close>.\<close>

definition init_currentSeries :: int where
  "init_currentSeries = - 1"

section \<open>Store operations\<close>

definition newSeries :: "'a series \<Rightarrow> 'a plot \<Rightarrow> 'a plot \<times> addr" where
  "newSeries s plot =
     (plot\<lparr>seriesStore := (seriesStore plot)(nextSeries plot := s),
           nextSeries := Suc (nextSeries plot)\<rparr>, nextSeries plot)"

definition newArray :: "'a point list \<Rightarrow> 'a plot \<Rightarrow> 'a plot \<times> addr" where
  "newArray xs plot =
     (plot\<lparr>arrayStore := (arrayStore plot)(nextArray plot := xs),
           nextArray := Suc (nextArray plot)\<rparr>, nextArray plot)"

definition newStyle :: "'a style \<Rightarrow> 'a plot \<Rightarrow> 'a plot \<times> addr" where
  "newStyle g plot =
     (plot\<lparr>styleStore := (styleStore plot)(nextStyle plot := g),
           nextStyle := Suc (nextStyle plot)\<rparr>, nextStyle plot)"

text \<open>Assignment to a property of the series object at an address, and to a property
  of an option group at an address.\<close>

definition setSeries :: "addr \<Rightarrow> ('a series \<Rightarrow> 'a series) \<Rightarrow> 'a plot \<Rightarrow> 'a plot" where
  "setSeries a f plot = plot\<lparr>seriesStore := (seriesStore plot)(a := f (seriesStore plot a))\<rparr>"

definition setStyle :: "addr \<Rightarrow> ('a style \<Rightarrow> 'a style) \<Rightarrow> 'a plot \<Rightarrow> 'a plot" where
  "setStyle a f plot = plot\<lparr>styleStore := (styleStore plot)(a := f (styleStore plot a))\<rparr>"

text \<open>Assignment to a property of the object at an address of the object store
  (\<^verbatim>\<open>x.bars.fillColor.colors = ...\<close>, for the object that \<^verbatim>\<open>x.bars.fillColor\<close> is).\<close>

definition setObject ::
  "addr \<Rightarrow> ((string \<times> 'a jsval) list \<Rightarrow> (string \<times> 'a jsval) list) \<Rightarrow> 'a plot \<Rightarrow> 'a plot" where
  "setObject a f plot = plot\<lparr>objectStore := (objectStore plot)(a := f (objectStore plot a))\<rparr>"

text \<open>\<^verbatim>\<open>array.push(x)\<close> on the array at an address.\<close>

definition push :: "addr \<Rightarrow> 'a point \<Rightarrow> 'a plot \<Rightarrow> 'a plot" where
  "push a p plot = plot\<lparr>arrayStore := (arrayStore plot)(a := arrayStore plot a @ [p])\<rparr>"

text \<open>\<^verbatim>\<open>$.extend({}, obj)\<close>, the shallow copy of jQuery: every property of \<^verbatim>\<open>obj\<close>
  whose value is not \<^verbatim>\<open>undefined\<close> is assigned to the fresh object; a value that is a
  reference is copied as a reference.\<close>

definition extend :: "(string \<times> 'a jsval) list \<Rightarrow> (string \<times> 'a jsval) list" where
  "extend props = filter (\<lambda>(name, copy). copy \<noteq> Undefined) props"

definition extendStyle :: "'a style \<Rightarrow> 'a style" where
  "extendStyle g = g\<lparr>otherOpts := extend (otherOpts g)\<rparr>"

definition extendSeries :: "'a series \<Rightarrow> 'a series" where
  "extendSeries s = s\<lparr>otherProps := extend (otherProps s)\<rparr>"

section \<open>The functions of the plugin\<close>

text \<open>\<^verbatim>\<open>getSeries(plot, i)\<close>: the series at index \<open>i\<close> of \<^verbatim>\<open>plot.getData()\<close>,
  or \<^verbatim>\<open>false\<close> (here \<open>None\<close>) when \<^verbatim>\<open>series[i]\<close> is \<^verbatim>\<open>undefined\<close>: the index is
  negative, beyond the array, or itself \<^verbatim>\<open>undefined\<close>.\<close>

definition getSeries :: "'a plot \<Rightarrow> int option \<Rightarrow> addr option" where
  "getSeries plot i =
     (case i of
        None \<Rightarrow> None
      | Some n \<Rightarrow>
          if 0 \<le> n \<and> nat n < length (getData plot) then Some (getData plot ! nat n)
          else None)"

text \<open>\<^verbatim>\<open>flattenData(data, isVertical)\<close>: the loop over \<^verbatim>\<open>data\<close>, assigning into the
  object \<^verbatim>\<open>flat\<close>, which starts empty.\<close>

primrec flattenLoop :: "'a point list \<Rightarrow> bool \<Rightarrow> ('a \<rightharpoonup> 'a) \<Rightarrow> ('a \<rightharpoonup> 'a)" where
  "flattenLoop [] isVertical flat = flat"
| "flattenLoop (p # ps) isVertical flat =
     flattenLoop ps isVertical
       (if isVertical then flat(fst p \<mapsto> snd p) else flat(snd p \<mapsto> fst p))"

definition flattenData :: "'a point list \<Rightarrow> bool \<Rightarrow> ('a \<rightharpoonup> 'a)" where
  "flattenData data_arr isVertical = flattenLoop data_arr isVertical Map.empty"

text \<open>\<^verbatim>\<open>copySeries(series, datapoints, color)\<close>, statement by statement. The result is
  the plot with the new objects and the address of the copy.\<close>

definition copySeries :: "'a plot \<Rightarrow> addr \<Rightarrow> 'a datapoints \<Rightarrow> 'a jsval \<Rightarrow> 'a plot \<times> addr" where
  "copySeries plot0 series dpts col =
     (let (plot, copy) = newSeries (extendSeries (seriesStore plot0 series)) plot0;
          (plot, arr) = newArray [] plot;
          plot = setSeries copy (\<lambda>c. c\<lparr>data := arr\<rparr>) plot;
          plot = setSeries copy (\<lambda>c. c\<lparr>datapoints :=
                   \<lparr>dp_points = [], pointsize = pointsize dpts, format = format dpts\<rparr>\<rparr>) plot;
          plot = setSeries copy (\<lambda>c. c\<lparr>label := Null\<rparr>) plot;
          (plot, b) = newStyle (extendStyle (styleStore plot (bars (seriesStore plot series)))) plot;
          plot = setSeries copy (\<lambda>c. c\<lparr>bars := b\<rparr>) plot;
          (plot, l) = newStyle (extendStyle (styleStore plot (lines (seriesStore plot series)))) plot;
          plot = setSeries copy (\<lambda>c. c\<lparr>lines := l\<rparr>) plot;
          (plot, p) = newStyle (extendStyle (styleStore plot (points (seriesStore plot series)))) plot;
          plot = setSeries copy (\<lambda>c. c\<lparr>points := p\<rparr>) plot;
          plot = setSeries copy (\<lambda>c. c\<lparr>color := col\<rparr>) plot;
          plot = setSeries copy (\<lambda>c. c\<lparr>originSeries := Some series\<rparr>) plot;
          plot = setSeries copy (\<lambda>c. c\<lparr>compare :=
                   \<lparr>enabled = False, seriesIndex = None,
                    colorAbove = Undefined, colorBelow = Undefined\<rparr>\<rparr>) plot
      in (plot, copy))"

text \<open>The callback of \<^verbatim>\<open>$.each(series.data, function (i, data) { ... })\<close> in
  \<^verbatim>\<open>compareSeries\<close>. \<^verbatim>\<open>compareData[key]\<close> is \<^verbatim>\<open>undefined\<close> for an absent key, and
  \<^verbatim>\<open>value >= undefined\<close> is false; \<^verbatim>\<open>hasOwnProperty\<close> is membership in the domain.
  The index \<^verbatim>\<open>i\<close> is not used.\<close>

definition pushPoint ::
  "bool \<Rightarrow> ('a::linorder \<rightharpoonup> 'a) \<Rightarrow> addr \<Rightarrow> addr \<Rightarrow> 'a point \<Rightarrow> 'a plot \<Rightarrow> 'a plot" where
  "pushPoint isVertical compareData aboveSeries belowSeries p plot =
     (let key = (if isVertical then fst p else snd p);
          val = (if isVertical then snd p else fst p)
      in if (case compareData key of Some r \<Rightarrow> r \<le> val | None \<Rightarrow> False)
            \<or> compareData key = None
         then push (data (seriesStore plot aboveSeries)) p plot
         else push (data (seriesStore plot belowSeries)) p plot)"

text \<open>\<^verbatim>\<open>$.each(array, callback)\<close> for a callback that never returns \<^verbatim>\<open>false\<close>.\<close>

primrec each :: "'b list \<Rightarrow> ('b \<Rightarrow> 's \<Rightarrow> 's) \<Rightarrow> 's \<Rightarrow> 's" where
  "each [] callback st = st"
| "each (x # xs) callback st = each xs callback (callback x st)"

text \<open>\<^verbatim>\<open>compareSeries(plot, series, data, datapoints)\<close>, the \<^verbatim>\<open>processRawData\<close> hook.
  The parameter \<^verbatim>\<open>data\<close> is not used by the source (the loop reads \<^verbatim>\<open>series.data\<close>).
  The variables \<^verbatim>\<open>above\<close> and \<^verbatim>\<open>below\<close> are \<open>aboveSeries\<close> and \<open>belowSeries\<close>.\<close>

definition compareSeries ::
  "'a::linorder plot \<Rightarrow> addr \<Rightarrow> addr \<Rightarrow> 'a datapoints \<Rightarrow> 'a plot" where
  "compareSeries plot0 series data_arg dpts =
     (let plot = plot0\<lparr>currentSeries := currentSeries plot0 + 1\<rparr> in
      if \<not> enabled (compare (seriesStore plot series))
         \<or> seriesIndex (compare (seriesStore plot series)) = Some (currentSeries plot)
      then plot
      else
        case getSeries plot (seriesIndex (compare (seriesStore plot series))) of
          None \<Rightarrow> plot
        | Some comparedSeries \<Rightarrow>
            let isVertical =
                  (if showFlag (styleStore plot (bars (seriesStore plot series)))
                      \<and> horizontal (styleStore plot (bars (seriesStore plot series)))
                   then False else True);
                compareData =
                  flattenData (arrayStore plot (data (seriesStore plot comparedSeries))) isVertical;
                (plot, aboveSeries) =
                  copySeries plot series dpts (colorAbove (compare (seriesStore plot series)));
                (plot, belowSeries) =
                  copySeries plot series dpts (colorBelow (compare (seriesStore plot series)));
                plot = setStyle (bars (seriesStore plot series)) (\<lambda>g. g\<lparr>showFlag := False\<rparr>) plot;
                plot = setStyle (lines (seriesStore plot series)) (\<lambda>g. g\<lparr>showFlag := False\<rparr>) plot;
                plot = setStyle (points (seriesStore plot series)) (\<lambda>g. g\<lparr>showFlag := False\<rparr>) plot;
                plot = each (arrayStore plot (data (seriesStore plot series)))
                            (pushPoint isVertical compareData aboveSeries belowSeries) plot;
                plot = plot\<lparr>getData := getData plot @ [aboveSeries]\<rparr>;
                plot = plot\<lparr>getData := getData plot @ [belowSeries]\<rparr>
            in plot)"

section \<open>Vocabulary of the properties\<close>

text \<open>The position of the series being processed. The source does not receive it: it
  counts the calls of the hook in \<^verbatim>\<open>currentSeries\<close>, incremented first thing in every
  call and never reset, and Flot calls the hook once per series, in the order of
  \<^verbatim>\<open>plot.getData()\<close>. The position that a call of \<open>compareSeries\<close> compares with is the
  counter after the increment: the index of the series in the list when the hook has run
  once for each earlier entry since \<^verbatim>\<open>init\<close>, that is on the first pass over the list,
  and a larger number on every later pass. The guard of the hook, and with it
  \<open>partitionable\<close> below, is stated with this tracked position, as the code has it.\<close>

definition subjectPosition :: "'a plot \<Rightarrow> int" where
  "subjectPosition plot = currentSeries plot + 1"

text \<open>The series at \<open>series\<close> is partitioned against the series at \<open>reference\<close>:
  comparison is enabled, the reference index is not the subject's position, and it
  resolves to \<open>reference\<close> in the series list.\<close>

definition partitionable :: "'a plot \<Rightarrow> addr \<Rightarrow> addr \<Rightarrow> bool" where
  "partitionable plot series reference \<longleftrightarrow>
     enabled (compare (seriesStore plot series))
     \<and> seriesIndex (compare (seriesStore plot series)) \<noteq> Some (subjectPosition plot)
     \<and> getSeries plot (seriesIndex (compare (seriesStore plot series))) = Some reference"

text \<open>The series object at \<open>series\<close>, its data array and its three option groups exist:
  their addresses are below the next free ones.\<close>

definition allocated :: "'a plot \<Rightarrow> addr \<Rightarrow> bool" where
  "allocated plot series \<longleftrightarrow>
     series < nextSeries plot
     \<and> data (seriesStore plot series) < nextArray plot
     \<and> bars (seriesStore plot series) < nextStyle plot
     \<and> lines (seriesStore plot series) < nextStyle plot
     \<and> points (seriesStore plot series) < nextStyle plot"

text \<open>\<^verbatim>\<open>series.data\<close> of the series at an address.\<close>

definition dataOf :: "'a plot \<Rightarrow> addr \<Rightarrow> 'a point list" where
  "dataOf plot a = arrayStore plot (data (seriesStore plot a))"

text \<open>The two entries that a partitioning call appends to the series list of \<open>plot\<close>,
  read from the list of the resulting plot \<open>R\<close>: the first one appended is \<^verbatim>\<open>above\<close>,
  the second one \<^verbatim>\<open>below\<close>.\<close>

definition aboveOf :: "'a plot \<Rightarrow> 'a plot \<Rightarrow> addr" where
  "aboveOf plot R = getData R ! length (getData plot)"

definition belowOf :: "'a plot \<Rightarrow> 'a plot \<Rightarrow> addr" where
  "belowOf plot R = getData R ! Suc (length (getData plot))"

text \<open>The orientation that \<open>compareSeries\<close> computes from the subject's \<^verbatim>\<open>bars\<close>.\<close>

definition vertical :: "'a plot \<Rightarrow> addr \<Rightarrow> bool" where
  "vertical plot series \<longleftrightarrow>
     \<not> (showFlag (styleStore plot (bars (seriesStore plot series)))
        \<and> horizontal (styleStore plot (bars (seriesStore plot series))))"

definition keyOf :: "bool \<Rightarrow> 'a point \<Rightarrow> 'a" where
  "keyOf isVertical p = (if isVertical then fst p else snd p)"

definition valueOf :: "bool \<Rightarrow> 'a point \<Rightarrow> 'a" where
  "valueOf isVertical p = (if isVertical then snd p else fst p)"

text \<open>The test of the loop of \<open>compareSeries\<close>, as one predicate on points.\<close>

definition isAbove :: "('a::linorder \<rightharpoonup> 'a) \<Rightarrow> bool \<Rightarrow> 'a point \<Rightarrow> bool" where
  "isAbove lookup isVertical p \<longleftrightarrow>
     (case lookup (keyOf isVertical p) of
        None \<Rightarrow> True
      | Some r \<Rightarrow> r \<le> valueOf isVertical p)"

text \<open>\<^verbatim>\<open>group.show = false\<close> on the option group at an address of a style store.\<close>

definition hide :: "addr \<Rightarrow> (addr \<Rightarrow> 'a style) \<Rightarrow> (addr \<Rightarrow> 'a style)" where
  "hide a st = st(a := (st a)\<lparr>showFlag := False\<rparr>)"

text \<open>The series object that \<open>copySeries\<close> builds from the object \<open>s\<close> at address
  \<open>series\<close>, with its data array at \<open>arr\<close> and its option groups at \<open>g\<close>, \<open>g + 1\<close>, \<open>g + 2\<close>.\<close>

definition derived ::
  "'a series \<Rightarrow> addr \<Rightarrow> 'a datapoints \<Rightarrow> 'a jsval \<Rightarrow> addr \<Rightarrow> addr \<Rightarrow> 'a series" where
  "derived s series dpts col arr g =
     s\<lparr>otherProps := extend (otherProps s),
       data := arr,
       datapoints := \<lparr>dp_points = [], pointsize = pointsize dpts, format = format dpts\<rparr>,
       label := Null, bars := g, lines := Suc g, points := Suc (Suc g),
       color := col, originSeries := Some series,
       compare := \<lparr>enabled = False, seriesIndex = None,
                   colorAbove = Undefined, colorBelow = Undefined\<rparr>\<rparr>"

text \<open>The addresses of the option groups of a series object.\<close>

definition styleGroups :: "'a series \<Rightarrow> addr set" where
  "styleGroups s = {bars s, lines s, points s}"

text \<open>Whatever is assigned to a property of an option group of the series at \<open>x\<close>
  (\<^verbatim>\<open>x.bars.show = ...\<close>: any change \<open>f\<close> of the group object), every option group of
  the series at \<open>y\<close> reads as before.\<close>

definition independent :: "'a plot \<Rightarrow> addr \<Rightarrow> addr \<Rightarrow> bool" where
  "independent plot x y \<longleftrightarrow>
     (\<forall>a \<in> styleGroups (seriesStore plot x). \<forall>b \<in> styleGroups (seriesStore plot y).
        \<forall>f. styleStore (setStyle a f plot) b = styleStore plot b)"

text \<open>The objects that the properties of an option group refer to, in the order of the
  properties.\<close>

fun refOf :: "'a jsval \<Rightarrow> addr option" where
  "refOf (Ref a) = Some a"
| "refOf _ = None"

definition nestedObjects :: "'a style \<Rightarrow> addr list" where
  "nestedObjects g = List.map_filter (\<lambda>(name, v). refOf v) (otherOpts g)"

text \<open>Independence in depth: beyond \<open>independent\<close>, whatever is assigned to a property of
  an object that a group of the series at \<open>x\<close> refers to
  (\<^verbatim>\<open>x.bars.fillColor.colors = ...\<close>), every object that a group of the series at \<open>y\<close>
  refers to reads as before.\<close>

definition deepIndependent :: "'a plot \<Rightarrow> addr \<Rightarrow> addr \<Rightarrow> bool" where
  "deepIndependent plot x y \<longleftrightarrow>
     independent plot x y
     \<and> (\<forall>a \<in> styleGroups (seriesStore plot x). \<forall>b \<in> styleGroups (seriesStore plot y).
          \<forall>o1 \<in> set (nestedObjects (styleStore plot a)).
          \<forall>o2 \<in> set (nestedObjects (styleStore plot b)).
            \<forall>f. objectStore (setObject o1 f plot) o2 = objectStore plot o2)"

text \<open>The call that the host makes for the entry at index \<open>i\<close> of the series list, as the
  specification describes the hook point: the hook receives the series, its raw data
  and its \<^verbatim>\<open>datapoints\<close>, which Flot has just set to \<^verbatim>\<open>{ points: [] }\<close>.\<close>

definition callHook :: "nat \<Rightarrow> 'a::linorder plot \<Rightarrow> 'a plot" where
  "callHook i plot =
     compareSeries plot (getData plot ! i) (data (seriesStore plot (getData plot ! i)))
       \<lparr>dp_points = [], pointsize = Undefined, format = Undefined\<rparr>"

text \<open>The positions of a list whose element satisfies a predicate, in increasing order.\<close>

definition positionsOf :: "('b \<Rightarrow> bool) \<Rightarrow> 'b list \<Rightarrow> nat list" where
  "positionsOf P xs = filter (\<lambda>i. P (xs ! i)) [0..<length xs]"

section \<open>A plot to evaluate on\<close>

text \<open>Two series. The reference, at index 0, has the points of the scenario of the
  specification; the subject, at index 1, compares with index 0. The hook has run for
  series 0, so the counter is 0. The flag \<open>h\<close> is \<^verbatim>\<open>bars.horizontal\<close> of the subject.\<close>

definition exampleStyle :: "bool \<Rightarrow> bool \<Rightarrow> int style" where
  "exampleStyle s h =
     \<lparr>showFlag = s, horizontal = h,
      otherOpts = [(''lineWidth'', Num 2), (''fillColor'', Undefined)]\<rparr>"

definition exampleSeries :: "addr \<Rightarrow> addr \<Rightarrow> bool \<Rightarrow> int series" where
  "exampleSeries d g en =
     \<lparr>data = d,
      datapoints = \<lparr>dp_points = [], pointsize = Undefined, format = Undefined\<rparr>,
      label = Str ''series'', bars = g, lines = Suc g, points = Suc (Suc g),
      color = Str ''#edc240'', originSeries = None,
      compare = options_series_compare\<lparr>enabled := en\<rparr>,
      otherProps = [(''shadowSize'', Num 3), (''highlightColor'', Undefined)]\<rparr>"

definition examplePlot :: "bool \<Rightarrow> int plot" where
  "examplePlot h =
     \<lparr>currentSeries = 0,
      getData = [0, 1],
      seriesStore = (\<lambda>_. exampleSeries 0 0 False)(1 := exampleSeries 1 3 True),
      nextSeries = 2,
      arrayStore = (\<lambda>_. [])(0 := [(1, 5), (2, 4), (3, 7)],
                            1 := [(1, 5), (2, 3), (3, 8), (4, 0), (0, 5)]),
      nextArray = 2,
      styleStore = (\<lambda>_. exampleStyle True False)(3 := exampleStyle True h),
      nextStyle = 6,
      objectStore = (\<lambda>_. [])\<rparr>"

definition exampleReference :: addr where
  "exampleReference = 0"

definition exampleSubject :: addr where
  "exampleSubject = 1"

definition exampleDatapoints :: "int datapoints" where
  "exampleDatapoints = \<lparr>dp_points = [], pointsize = Undefined, format = Undefined\<rparr>"

text \<open>The result of the hook on the subject of the example.\<close>

definition exampleResult :: "bool \<Rightarrow> int plot" where
  "exampleResult h =
     compareSeries (examplePlot h) exampleSubject
       (data (seriesStore (examplePlot h) exampleSubject)) exampleDatapoints"

text \<open>Two variants: the subject listed first, at the start of a pass (the counter still
  at its initial value), so that its reference index 0 is its own position; and the
  subject with a reference index that no series has.\<close>

definition exampleSelf :: "int plot" where
  "exampleSelf =
     (examplePlot False)\<lparr>currentSeries := init_currentSeries,
                          getData := [exampleSubject, exampleReference]\<rparr>"

definition exampleUnresolved :: "int plot" where
  "exampleUnresolved =
     setSeries exampleSubject (\<lambda>s. s\<lparr>compare := (compare s)\<lparr>seriesIndex := Some 7\<rparr>\<rparr>)
       (examplePlot False)"

text \<open>The example with the reference drawn as horizontal bars, and the example with a
  subject that has no points.\<close>

definition exampleReferenceHorizontal :: "int plot" where
  "exampleReferenceHorizontal =
     (examplePlot False)\<lparr>styleStore :=
        (styleStore (examplePlot False))
          (bars (seriesStore (examplePlot False) exampleReference) := exampleStyle True True)\<rparr>"

definition exampleEmpty :: "int plot" where
  "exampleEmpty =
     (examplePlot False)\<lparr>arrayStore :=
        (arrayStore (examplePlot False))
          (data (seriesStore (examplePlot False) exampleSubject) := [])\<rparr>"

text \<open>The example with a gradient for the subject's bars: the property \<^verbatim>\<open>fillColor\<close> of
  the group refers to an object, \<^verbatim>\<open>{ colors: ... }\<close>, at address 0 of the object store.\<close>

definition exampleGradient :: "int plot" where
  "exampleGradient =
     (examplePlot False)
       \<lparr>styleStore :=
          (styleStore (examplePlot False))
            (bars (seriesStore (examplePlot False) exampleSubject) :=
               \<lparr>showFlag = True, horizontal = False,
                otherOpts = [(''lineWidth'', Num 2), (''zero'', Undefined), (''fillColor'', Ref 0)]\<rparr>),
        objectStore := (objectStore (examplePlot False))(0 := [(''colors'', Ref 1)])\<rparr>"

definition exampleGradientResult :: "int plot" where
  "exampleGradientResult =
     compareSeries exampleGradient exampleSubject
       (data (seriesStore exampleGradient exampleSubject)) exampleDatapoints"

text \<open>The example with comparison enabled for every series, all comparing with index 0
  (the use that the header of the source calls "specifying for all series"), before the
  first call of the hook. \<open>exampleFirstPass\<close> is the plot after the hook has been called
  for each of the four entries that the list has in the end. \<open>exampleSecondPass\<close> is the
  plot when the host processes the same series again (\<^verbatim>\<open>plot.setData\<close>): the list and
  the objects as at the start, the counter of the closure as the first pass left it.\<close>

definition exampleAllSeries :: "int plot" where
  "exampleAllSeries =
     (examplePlot False)
       \<lparr>currentSeries := init_currentSeries,
        seriesStore := (seriesStore (examplePlot False))(exampleReference := exampleSeries 0 0 True)\<rparr>"

definition exampleFirstPass :: "int plot" where
  "exampleFirstPass = callHook 3 (callHook 2 (callHook 1 (callHook 0 exampleAllSeries)))"

definition exampleSecondPass :: "int plot" where
  "exampleSecondPass = exampleAllSeries\<lparr>currentSeries := currentSeries exampleFirstPass\<rparr>"

section \<open>The effect of the functions\<close>

lemma copySeries_allocated:
  assumes "allocated plot series"
  shows "copySeries plot series dpts col =
    (plot\<lparr>nextSeries := Suc (nextSeries plot),
          arrayStore := (arrayStore plot)(nextArray plot := []),
          nextArray := Suc (nextArray plot),
          styleStore := (styleStore plot)
             (nextStyle plot := extendStyle (styleStore plot (bars (seriesStore plot series))),
              Suc (nextStyle plot) := extendStyle (styleStore plot (lines (seriesStore plot series))),
              Suc (Suc (nextStyle plot)) := extendStyle (styleStore plot (points (seriesStore plot series)))),
          nextStyle := Suc (Suc (Suc (nextStyle plot))),
          seriesStore := (seriesStore plot)
             (nextSeries plot :=
                derived (seriesStore plot series) series dpts col (nextArray plot) (nextStyle plot))\<rparr>,
     nextSeries plot)"
  using assms
  unfolding copySeries_def allocated_def derived_def
  by (simp add: newSeries_def newArray_def newStyle_def
      setSeries_def extendSeries_def Let_def cong: let_weak_cong)

lemma pushPoint_isAbove:
  "pushPoint v cd A B p plot =
     push (data (seriesStore plot (if isAbove cd v p then A else B))) p plot"
  by (simp add: pushPoint_def isAbove_def keyOf_def valueOf_def Let_def split: option.splits)

lemma each_pushPoint:
  assumes "data (seriesStore plot A) \<noteq> data (seriesStore plot B)"
  shows "each xs (pushPoint v cd A B) plot =
     plot\<lparr>arrayStore := (arrayStore plot)
        (data (seriesStore plot A) :=
           arrayStore plot (data (seriesStore plot A)) @ filter (isAbove cd v) xs,
         data (seriesStore plot B) :=
           arrayStore plot (data (seriesStore plot B)) @ filter (\<lambda>p. \<not> isAbove cd v p) xs)\<rparr>"
  using assms
proof (induction xs arbitrary: plot)
  case Nil
  then show ?case by simp
next
  case (Cons p ps)
  let ?q = "pushPoint v cd A B p plot"
  have s: "seriesStore ?q = seriesStore plot"
    by (simp add: pushPoint_isAbove push_def)
  have "each (p # ps) (pushPoint v cd A B) plot = each ps (pushPoint v cd A B) ?q"
    by simp
  also have "\<dots> = ?q\<lparr>arrayStore := (arrayStore ?q)
        (data (seriesStore ?q A) :=
           arrayStore ?q (data (seriesStore ?q A)) @ filter (isAbove cd v) ps,
         data (seriesStore ?q B) :=
           arrayStore ?q (data (seriesStore ?q B)) @ filter (\<lambda>p. \<not> isAbove cd v p) ps)\<rparr>"
    using Cons.prems by (intro Cons.IH) (simp add: s)
  also have "\<dots> = plot\<lparr>arrayStore := (arrayStore plot)
        (data (seriesStore plot A) :=
           arrayStore plot (data (seriesStore plot A)) @ filter (isAbove cd v) (p # ps),
         data (seriesStore plot B) :=
           arrayStore plot (data (seriesStore plot B)) @ filter (\<lambda>p. \<not> isAbove cd v p) (p # ps))\<rparr>"
    using Cons.prems by (auto simp add: pushPoint_isAbove push_def fun_upd_twist)
  finally show ?case .
qed

lemma setStyle_hide:
  "setStyle a (\<lambda>g. g\<lparr>showFlag := False\<rparr>) plot = plot\<lparr>styleStore := hide a (styleStore plot)\<rparr>"
  by (simp add: setStyle_def hide_def)

lemma getSeries_currentSeries:
  "getSeries (plot\<lparr>currentSeries := c\<rparr>) i = getSeries plot i"
  by (simp add: getSeries_def split: option.splits)

text \<open>The plot that a partitioning call returns, field by field.\<close>

lemma compareSeries_partitioned:
  fixes plot :: "'a::linorder plot"
  assumes al: "allocated plot series"
    and pa: "partitionable plot series reference"
  shows "compareSeries plot series d dpts =
    plot\<lparr>currentSeries := currentSeries plot + 1,
         nextSeries := Suc (Suc (nextSeries plot)),
         nextArray := Suc (Suc (nextArray plot)),
         nextStyle := Suc (Suc (Suc (Suc (Suc (Suc (nextStyle plot)))))),
         seriesStore := (seriesStore plot)
           (nextSeries plot :=
              derived (seriesStore plot series) series dpts
                (colorAbove (compare (seriesStore plot series)))
                (nextArray plot) (nextStyle plot),
            Suc (nextSeries plot) :=
              derived (seriesStore plot series) series dpts
                (colorBelow (compare (seriesStore plot series)))
                (Suc (nextArray plot)) (Suc (Suc (Suc (nextStyle plot))))),
         styleStore :=
           hide (points (seriesStore plot series))
            (hide (lines (seriesStore plot series))
              (hide (bars (seriesStore plot series))
                ((styleStore plot)
                   (nextStyle plot :=
                      extendStyle (styleStore plot (bars (seriesStore plot series))),
                    Suc (nextStyle plot) :=
                      extendStyle (styleStore plot (lines (seriesStore plot series))),
                    Suc (Suc (nextStyle plot)) :=
                      extendStyle (styleStore plot (points (seriesStore plot series))),
                    Suc (Suc (Suc (nextStyle plot))) :=
                      extendStyle (styleStore plot (bars (seriesStore plot series))),
                    Suc (Suc (Suc (Suc (nextStyle plot)))) :=
                      extendStyle (styleStore plot (lines (seriesStore plot series))),
                    Suc (Suc (Suc (Suc (Suc (nextStyle plot))))) :=
                      extendStyle (styleStore plot (points (seriesStore plot series))))))),
         arrayStore := (arrayStore plot)
           (nextArray plot :=
              filter (isAbove (flattenData (dataOf plot reference) (vertical plot series))
                        (vertical plot series))
                (dataOf plot series),
            Suc (nextArray plot) :=
              filter (\<lambda>p. \<not> isAbove (flattenData (dataOf plot reference) (vertical plot series))
                              (vertical plot series) p)
                (dataOf plot series)),
         getData := getData plot @ [nextSeries plot, Suc (nextSeries plot)]\<rparr>"
proof -
  have isv: "(if showFlag (styleStore plot (bars (seriesStore plot series)))
                 \<and> horizontal (styleStore plot (bars (seriesStore plot series)))
              then False else True) = vertical plot series"
    by (simp add: vertical_def)
  show ?thesis
    using al pa
    unfolding compareSeries_def partitionable_def subjectPosition_def dataOf_def
    by (simp add: Let_def copySeries_allocated allocated_def setStyle_hide each_pushPoint
        derived_def isv getSeries_currentSeries cong: let_weak_cong)
qed

text \<open>Every call of the hook advances the counter by one, whichever path it takes. So
  when the hook has been called once for each of the first \<open>n\<close> entries of the series
  list, starting from the initial counter, \<open>subjectPosition\<close> is \<open>n\<close>, the index of the
  entry that comes next.\<close>

lemma copySeries_currentSeries:
  "currentSeries (fst (copySeries plot series dpts col)) = currentSeries plot"
  unfolding copySeries_def
  by (simp add: newSeries_def newArray_def newStyle_def setSeries_def Let_def
      split_def cong: let_weak_cong)

lemma each_pushPoint_currentSeries:
  "currentSeries (each xs (pushPoint v cd A B) plot) = currentSeries plot"
  by (induction xs arbitrary: plot) (simp_all add: pushPoint_isAbove push_def)

lemma compareSeries_counts:
  fixes plot :: "'a::linorder plot"
  shows "currentSeries (compareSeries plot series d dpts) = currentSeries plot + 1"
  unfolding compareSeries_def
  by (simp add: Let_def split_def setStyle_def copySeries_currentSeries
      each_pushPoint_currentSeries split: option.splits cong: let_weak_cong)

lemma compareSeries_subjectPosition:
  fixes plot :: "'a::linorder plot"
  shows "subjectPosition (compareSeries plot series d dpts) = subjectPosition plot + 1"
  by (simp add: subjectPosition_def compareSeries_counts)

text \<open>The two appended series and their data, in a partitioning call.\<close>

lemma partitioned_aboveOf:
  fixes plot :: "'a::linorder plot"
  assumes "allocated plot series" and "partitionable plot series reference"
  shows "aboveOf plot (compareSeries plot series d dpts) = nextSeries plot"
    and "belowOf plot (compareSeries plot series d dpts) = Suc (nextSeries plot)"
  by (simp_all add: compareSeries_partitioned [OF assms] aboveOf_def belowOf_def nth_append)

lemma partitioned_data:
  fixes plot :: "'a::linorder plot" and d :: addr and dpts :: "'a datapoints"
  assumes al: "allocated plot series" and pa: "partitionable plot series reference"
  defines "R \<equiv> compareSeries plot series d dpts"
  defines "v \<equiv> vertical plot series"
  defines "lookup \<equiv> flattenData (dataOf plot reference) v"
  shows "dataOf R (aboveOf plot R) = filter (isAbove lookup v) (dataOf plot series)"
    and "dataOf R (belowOf plot R) = filter (\<lambda>p. \<not> isAbove lookup v p) (dataOf plot series)"
  unfolding R_def v_def lookup_def partitioned_aboveOf [OF al pa]
  by (simp_all add: compareSeries_partitioned [OF al pa] dataOf_def derived_def)

lemma getSeries_styleStore:
  "getSeries (plot\<lparr>styleStore := st\<rparr>) i = getSeries plot i"
  by (simp add: getSeries_def split: option.splits)

text \<open>The option groups of the three series after a partitioning call: those of the
  two copies are fresh, those of the subject are the ones it had.\<close>

lemma partitioned_styleGroups:
  fixes plot :: "'a::linorder plot" and d :: addr and dpts :: "'a datapoints"
  assumes "allocated plot series" and "partitionable plot series reference"
  defines "R \<equiv> compareSeries plot series d dpts"
  shows "styleGroups (seriesStore R (aboveOf plot R))
           = {nextStyle plot, nextStyle plot + 1, nextStyle plot + 2}"
    and "styleGroups (seriesStore R (belowOf plot R))
           = {nextStyle plot + 3, nextStyle plot + 4, nextStyle plot + 5}"
    and "styleGroups (seriesStore R series) = styleGroups (seriesStore plot series)"
    and "a \<in> styleGroups (seriesStore plot series) \<Longrightarrow> a < nextStyle plot"
proof -
  note R = compareSeries_partitioned [OF assms(1,2), of d dpts]
  note ab = partitioned_aboveOf [OF assms(1,2), of d dpts]
  show "styleGroups (seriesStore R (aboveOf plot R))
           = {nextStyle plot, nextStyle plot + 1, nextStyle plot + 2}"
    unfolding R_def ab by (simp add: R styleGroups_def derived_def)
  show "styleGroups (seriesStore R (belowOf plot R))
           = {nextStyle plot + 3, nextStyle plot + 4, nextStyle plot + 5}"
    unfolding R_def ab by (simp add: R styleGroups_def derived_def eval_nat_numeral)
  show "styleGroups (seriesStore R series) = styleGroups (seriesStore plot series)"
    using assms(1) unfolding R_def by (simp add: R allocated_def)
  show "a \<in> styleGroups (seriesStore plot series) \<Longrightarrow> a < nextStyle plot"
    using assms(1) by (auto simp add: allocated_def styleGroups_def)
qed

lemma independent_disjoint:
  assumes "styleGroups (seriesStore plot x) \<inter> styleGroups (seriesStore plot y) = {}"
  shows "independent plot x y"
  using assms by (auto simp add: independent_def setStyle_def)

text \<open>A series with comparison disabled is left alone.\<close>

lemma compareSeries_disabled:
  fixes plot :: "'a::linorder plot"
  assumes "\<not> enabled (compare (seriesStore plot series))"
  shows "compareSeries plot series d dpts = plot\<lparr>currentSeries := currentSeries plot + 1\<rparr>"
  using assms unfolding compareSeries_def
  by (simp add: Let_def cong: let_weak_cong)

text \<open>The two guards: when comparison is disabled, or the reference index is the position
  that the counter tracks, or the reference index resolves to no series, the call
  returns the plot it was given with only the counter advanced.\<close>

lemma compareSeries_noop:
  fixes plot :: "'a::linorder plot"
  assumes "\<not> enabled (compare (seriesStore plot series))
           \<or> seriesIndex (compare (seriesStore plot series)) = Some (subjectPosition plot)
           \<or> getSeries plot (seriesIndex (compare (seriesStore plot series))) = None"
  shows "compareSeries plot series d dpts = plot\<lparr>currentSeries := currentSeries plot + 1\<rparr>"
  using assms
  unfolding compareSeries_def subjectPosition_def
  by (auto simp add: Let_def getSeries_currentSeries cong: let_weak_cong)

lemma getSeries_objectStore:
  "getSeries (plot\<lparr>objectStore := st\<rparr>) i = getSeries plot i"
  by (simp add: getSeries_def split: option.splits)

lemma nestedObjects_filter:
  "List.map_filter (\<lambda>(name, v). refOf v) (filter (\<lambda>(name, v). v \<noteq> Undefined) ps)
     = List.map_filter (\<lambda>(name, v). refOf v) ps"
  by (induction ps) (auto simp add: map_filter_simps split: option.splits)

lemma nestedObjects_extendStyle: "nestedObjects (extendStyle g) = nestedObjects g"
  by (simp add: nestedObjects_def extendStyle_def extend_def nestedObjects_filter)

lemma nestedObjects_showFlag: "nestedObjects (g\<lparr>showFlag := v\<rparr>) = nestedObjects g"
  by (simp add: nestedObjects_def)

text \<open>The option groups after a partitioning call: each group of a copy is the
  \<^verbatim>\<open>$.extend({}, group)\<close> of the subject's group as it was, the subject's groups have
  \<^verbatim>\<open>show\<close> cleared, and no object of the object store is written.\<close>

lemma partitioned_styles:
  fixes plot :: "'a::linorder plot" and d :: addr and dpts :: "'a datapoints"
  assumes "allocated plot series" and "partitionable plot series reference"
  defines "R \<equiv> compareSeries plot series d dpts"
  defines "s \<equiv> seriesStore plot series"
  shows "styleStore R (bars (seriesStore R (aboveOf plot R))) = extendStyle (styleStore plot (bars s))"
    and "styleStore R (lines (seriesStore R (aboveOf plot R))) = extendStyle (styleStore plot (lines s))"
    and "styleStore R (points (seriesStore R (aboveOf plot R))) = extendStyle (styleStore plot (points s))"
    and "styleStore R (bars (seriesStore R (belowOf plot R))) = extendStyle (styleStore plot (bars s))"
    and "styleStore R (lines (seriesStore R (belowOf plot R))) = extendStyle (styleStore plot (lines s))"
    and "styleStore R (points (seriesStore R (belowOf plot R))) = extendStyle (styleStore plot (points s))"
    and "a \<in> styleGroups s \<Longrightarrow> styleStore R a = (styleStore plot a)\<lparr>showFlag := False\<rparr>"
    and "seriesStore R series = s"
    and "objectStore R = objectStore plot"
proof -
  note R = compareSeries_partitioned [OF assms(1,2), of d dpts]
  note ab = partitioned_aboveOf [OF assms(1,2), of d dpts]
  have al: "series < nextSeries plot" "bars s < nextStyle plot" "lines s < nextStyle plot"
    "points s < nextStyle plot"
    using assms(1) by (simp_all add: allocated_def s_def)
  show "styleStore R (bars (seriesStore R (aboveOf plot R))) = extendStyle (styleStore plot (bars s))"
    "styleStore R (lines (seriesStore R (aboveOf plot R))) = extendStyle (styleStore plot (lines s))"
    "styleStore R (points (seriesStore R (aboveOf plot R))) = extendStyle (styleStore plot (points s))"
    "styleStore R (bars (seriesStore R (belowOf plot R))) = extendStyle (styleStore plot (bars s))"
    "styleStore R (lines (seriesStore R (belowOf plot R))) = extendStyle (styleStore plot (lines s))"
    "styleStore R (points (seriesStore R (belowOf plot R))) = extendStyle (styleStore plot (points s))"
    using al unfolding R_def ab s_def
    by (simp_all add: R derived_def hide_def)
  show "a \<in> styleGroups s \<Longrightarrow> styleStore R a = (styleStore plot a)\<lparr>showFlag := False\<rparr>"
    using al unfolding R_def s_def
    by (auto simp add: R hide_def styleGroups_def)
  show "seriesStore R series = s"
    using al unfolding R_def s_def by (simp add: R)
  show "objectStore R = objectStore plot"
    unfolding R_def by (simp add: R)
qed

lemma deepIndependent_flat:
  assumes "independent plot x y"
    and "\<And>a. a \<in> styleGroups (seriesStore plot x) \<Longrightarrow> nestedObjects (styleStore plot a) = []"
  shows "deepIndependent plot x y"
  using assms by (simp add: deepIndependent_def)

text \<open>The example, evaluated.\<close>

lemma example_allocated: "allocated (examplePlot h) exampleSubject"
  by (simp add: allocated_def examplePlot_def exampleSeries_def exampleSubject_def)

lemma example_partitionable: "partitionable (examplePlot h) exampleSubject exampleReference"
  by (simp add: partitionable_def subjectPosition_def getSeries_def examplePlot_def
      exampleSeries_def options_series_compare_def exampleSubject_def exampleReference_def)

lemma example_vertical: "vertical (examplePlot h) exampleSubject = (\<not> h)"
  by (simp add: vertical_def examplePlot_def exampleSeries_def exampleSubject_def
      exampleStyle_def)

lemma example_data:
  "dataOf (examplePlot h) exampleReference = [(1, 5), (2, 4), (3, 7)]"
  "dataOf (examplePlot h) exampleSubject = [(1, 5), (2, 3), (3, 8), (4, 0), (0, 5)]"
  by (simp_all add: dataOf_def examplePlot_def exampleSeries_def exampleSubject_def
      exampleReference_def)

lemma example_above_vertical:
  "dataOf (exampleResult False) (aboveOf (examplePlot False) (exampleResult False))
     = [(1, 5), (3, 8), (4, 0), (0, 5)]"
  unfolding exampleResult_def partitioned_data [OF example_allocated example_partitionable]
  by (simp add: example_vertical example_data isAbove_def keyOf_def valueOf_def flattenData_def)

lemma example_below_vertical:
  "dataOf (exampleResult False) (belowOf (examplePlot False) (exampleResult False)) = [(2, 3)]"
  unfolding exampleResult_def partitioned_data [OF example_allocated example_partitionable]
  by (simp add: example_vertical example_data isAbove_def keyOf_def valueOf_def flattenData_def)

lemma example_above_horizontal:
  "dataOf (exampleResult True) (aboveOf (examplePlot True) (exampleResult True))
     = [(1, 5), (2, 3), (3, 8), (4, 0)]"
  unfolding exampleResult_def partitioned_data [OF example_allocated example_partitionable]
  by (simp add: example_vertical example_data isAbove_def keyOf_def valueOf_def flattenData_def)

lemma example_below_horizontal:
  "dataOf (exampleResult True) (belowOf (examplePlot True) (exampleResult True)) = [(0, 5)]"
  unfolding exampleResult_def partitioned_data [OF example_allocated example_partitionable]
  by (simp add: example_vertical example_data isAbove_def keyOf_def valueOf_def flattenData_def)

text \<open>The three cases of the guards: the reference series of the example has comparison
  disabled; in \<open>exampleSelf\<close> the subject is at position 0 and refers to index 0; in
  \<open>exampleUnresolved\<close> the subject refers to index 7 of a list of two.\<close>

lemma compareSeries_noop_examples:
  "\<not> enabled (compare (seriesStore (examplePlot False) exampleReference))
   \<and> compareSeries (examplePlot False) exampleReference 0 exampleDatapoints
       = (examplePlot False)\<lparr>currentSeries := 1\<rparr>
   \<and> getData exampleSelf ! 0 = exampleSubject
   \<and> seriesIndex (compare (seriesStore exampleSelf exampleSubject)) = Some 0
   \<and> subjectPosition exampleSelf = 0
   \<and> compareSeries exampleSelf exampleSubject 1 exampleDatapoints
       = exampleSelf\<lparr>currentSeries := 0\<rparr>
   \<and> enabled (compare (seriesStore exampleUnresolved exampleSubject))
   \<and> seriesIndex (compare (seriesStore exampleUnresolved exampleSubject)) = Some 7
   \<and> getSeries exampleUnresolved (Some 7) = None
   \<and> compareSeries exampleUnresolved exampleSubject 1 exampleDatapoints
       = exampleUnresolved\<lparr>currentSeries := 1\<rparr>"
proof -
  have a: "\<not> enabled (compare (seriesStore (examplePlot False) exampleReference))"
    by (simp add: examplePlot_def exampleSeries_def options_series_compare_def exampleReference_def)
  have b: "seriesIndex (compare (seriesStore exampleSelf exampleSubject)) = Some (subjectPosition exampleSelf)"
    "getData exampleSelf ! 0 = exampleSubject" "subjectPosition exampleSelf = 0"
    by (simp_all add: exampleSelf_def examplePlot_def exampleSeries_def options_series_compare_def exampleSubject_def
        subjectPosition_def init_currentSeries_def)
  have c: "getSeries exampleUnresolved (seriesIndex (compare (seriesStore exampleUnresolved exampleSubject))) = None"
    "enabled (compare (seriesStore exampleUnresolved exampleSubject))"
    "seriesIndex (compare (seriesStore exampleUnresolved exampleSubject)) = Some 7"
    by (simp_all add: exampleUnresolved_def setSeries_def examplePlot_def exampleSeries_def options_series_compare_def
        exampleSubject_def getSeries_def)
  have cur: "currentSeries (examplePlot False) = 0" "currentSeries exampleSelf = - 1"
    "currentSeries exampleUnresolved = 0"
    by (simp_all add: exampleUnresolved_def exampleSelf_def setSeries_def examplePlot_def
        init_currentSeries_def)
  show ?thesis
    using a b c
      compareSeries_noop [OF disjI1, OF a, of 0 exampleDatapoints]
      compareSeries_noop [OF disjI2, OF disjI1, OF b(1), of 1 exampleDatapoints]
      compareSeries_noop [OF disjI2, OF disjI2, OF c(1), of 1 exampleDatapoints]
    by (simp add: cur)
qed

lemma gradient_allocated: "allocated exampleGradient exampleSubject"
  using example_allocated [of False] by (simp add: allocated_def exampleGradient_def)

lemma gradient_partitionable: "partitionable exampleGradient exampleSubject exampleReference"
  using example_partitionable [of False]
  by (simp add: partitionable_def subjectPosition_def exampleGradient_def getSeries_styleStore
      getSeries_objectStore)

lemma gradient_bars:
  "styleStore exampleGradient (bars (seriesStore exampleGradient exampleSubject)) =
     \<lparr>showFlag = True, horizontal = False,
      otherOpts = [(''lineWidth'', Num 2), (''zero'', Undefined), (''fillColor'', Ref 0)]\<rparr>"
  "objectStore exampleGradient 0 = [(''colors'', Ref 1)]"
  by (simp_all add: exampleGradient_def)

lemma gradient_nested:
  "nestedObjects (styleStore exampleGradient (bars (seriesStore exampleGradient exampleSubject))) = [0]"
  by (simp add: gradient_bars nestedObjects_def map_filter_simps)

text \<open>The first pass over the example with comparison enabled for every series, and the
  plot at the start of the second.\<close>

lemma all_series_facts:
  "currentSeries exampleAllSeries = - 1"
  "getData exampleAllSeries = [exampleReference, exampleSubject]"
  "seriesStore exampleAllSeries exampleReference = exampleSeries 0 0 True"
  "seriesStore exampleAllSeries exampleSubject = exampleSeries 1 3 True"
  "nextSeries exampleAllSeries = 2" "nextArray exampleAllSeries = 2" "nextStyle exampleAllSeries = 6"
  "arrayStore exampleAllSeries 0 = [(1, 5), (2, 4), (3, 7)]"
  "styleStore exampleAllSeries a = exampleStyle True False"
  "exampleReference < 2" "exampleSubject < 2"
  by (simp_all add: exampleAllSeries_def examplePlot_def exampleReference_def exampleSubject_def
      init_currentSeries_def)

lemma series_facts:
  "data (exampleSeries d g en) = d" "bars (exampleSeries d g en) = g"
  "lines (exampleSeries d g en) = Suc g" "points (exampleSeries d g en) = Suc (Suc g)"
  "enabled (compare (exampleSeries d g en)) = en"
  "seriesIndex (compare (exampleSeries d g en)) = Some 0"
  by (simp_all add: exampleSeries_def options_series_compare_def)

lemma first_pass_skips_self:
  "callHook 0 exampleAllSeries = exampleAllSeries\<lparr>currentSeries := 0\<rparr>"
proof -
  have "seriesIndex (compare (seriesStore exampleAllSeries exampleReference))
          = Some (subjectPosition exampleAllSeries)"
    by (simp add: all_series_facts series_facts subjectPosition_def)
  then have "compareSeries exampleAllSeries exampleReference d dpts
               = exampleAllSeries\<lparr>currentSeries := currentSeries exampleAllSeries + 1\<rparr>" for d dpts
    by (intro compareSeries_noop) simp
  then show ?thesis
    by (simp add: callHook_def all_series_facts)
qed

lemma first_pass:
  "getData exampleFirstPass = [0, 1, 2, 3]" "currentSeries exampleFirstPass = 3"
proof -
  define p1 where "p1 = exampleAllSeries\<lparr>currentSeries := 0\<rparr>"
  define p2 where "p2 = compareSeries p1 exampleSubject (data (seriesStore p1 exampleSubject))
                          \<lparr>dp_points = [], pointsize = Undefined, format = Undefined\<rparr>"
  have f1: "getData p1 = [exampleReference, exampleSubject]" "nextSeries p1 = 2"
    "currentSeries p1 = 0"
    by (simp_all add: p1_def all_series_facts)
  have al: "allocated p1 exampleSubject"
    by (simp add: p1_def allocated_def all_series_facts series_facts)
  have pa: "partitionable p1 exampleSubject exampleReference"
    by (simp add: p1_def partitionable_def subjectPosition_def getSeries_def all_series_facts
        series_facts)
  have h1: "callHook 1 p1 = p2"
    by (simp add: callHook_def p2_def f1)
  have g2: "getData p2 = [exampleReference, exampleSubject, 2, 3]"
    unfolding p2_def by (simp add: compareSeries_partitioned [OF al pa] f1)
  have e2: "\<not> enabled (compare (seriesStore p2 2))" "\<not> enabled (compare (seriesStore p2 3))"
    unfolding p2_def by (simp_all add: compareSeries_partitioned [OF al pa] f1 derived_def)
  have c2: "currentSeries p2 = 1"
    unfolding p2_def by (simp add: compareSeries_counts f1)
  have h2: "callHook 2 p2 = p2\<lparr>currentSeries := 2\<rparr>"
    unfolding callHook_def using compareSeries_disabled [OF e2(1)] by (simp add: g2 c2)
  have e3: "\<not> enabled (compare (seriesStore (p2\<lparr>currentSeries := 2\<rparr>) 3))"
    using e2(2) by simp
  have h3: "callHook 3 (p2\<lparr>currentSeries := 2\<rparr>) = p2\<lparr>currentSeries := 3\<rparr>"
    unfolding callHook_def using compareSeries_disabled [OF e3] by (simp add: g2)
  have fp: "exampleFirstPass = p2\<lparr>currentSeries := 3\<rparr>"
    unfolding exampleFirstPass_def first_pass_skips_self
    unfolding p1_def [symmetric] h1 h2 h3 by (rule refl)
  show "getData exampleFirstPass = [0, 1, 2, 3]" "currentSeries exampleFirstPass = 3"
    unfolding fp by (simp_all add: g2 exampleReference_def exampleSubject_def)
qed

lemma second_pass_facts:
  "allocated exampleSecondPass exampleReference"
  "partitionable exampleSecondPass exampleReference exampleReference"
  "getData exampleSecondPass = [exampleReference, exampleSubject]"
  "dataOf exampleSecondPass exampleReference = [(1, 5), (2, 4), (3, 7)]"
  "vertical exampleSecondPass exampleReference"
  "showFlag (styleStore exampleSecondPass a)"
  "nextSeries exampleSecondPass = 2"
  by (simp_all add: exampleSecondPass_def allocated_def partitionable_def subjectPosition_def
      getSeries_def dataOf_def vertical_def first_pass all_series_facts
      series_facts exampleStyle_def)

text \<open>Positions: a filtered list is the list read at the positions that pass, and sorting
  the two halves of a partition by position gives the list back.\<close>

lemma map_nth_positionsOf: "map ((!) xs) (positionsOf P xs) = filter P xs"
proof -
  have "filter P xs = filter P (map ((!) xs) [0..<length xs])"
    by (simp add: map_nth)
  also have "\<dots> = map ((!) xs) (positionsOf P xs)"
    by (simp add: filter_map positionsOf_def comp_def)
  finally show ?thesis by simp
qed

lemma sorted_positionsOf: "sorted_wrt (<) (positionsOf P xs)"
  unfolding positionsOf_def by (rule sorted_wrt_filter) simp

lemma merge_positionsOf:
  "map snd (sort_key fst
      (zip (positionsOf P xs) (filter P xs)
       @ zip (positionsOf (\<lambda>x. \<not> P x) xs) (filter (\<lambda>x. \<not> P x) xs))) = xs"
proof -
  let ?g = "\<lambda>i. (i, xs ! i)"
  let ?Q = "\<lambda>i. P (xs ! i)"
  have z: "zip (positionsOf P' xs) (filter P' xs) = map ?g (positionsOf P' xs)" for P'
    unfolding map_nth_positionsOf [symmetric] by (simp add: zip_map2 zip_same_conv_map)
  have "sort_key fst (map ?g (filter ?Q [0..<length xs] @ filter (\<lambda>i. \<not> ?Q i) [0..<length xs]))
          = map ?g [0..<length xs]"
  proof (rule sort_key_inj_key_eq)
    show "mset (map ?g (filter ?Q [0..<length xs] @ filter (\<lambda>i. \<not> ?Q i) [0..<length xs]))
            = mset (map ?g [0..<length xs])"
    proof -
      have "mset (filter ?Q [0..<length xs]) + mset (filter (\<lambda>i. \<not> ?Q i) [0..<length xs])
              = mset [0..<length xs]"
        using multiset_partition [of "mset [0..<length xs]" ?Q] by simp
      then show ?thesis
        by (simp only: mset_map mset_append)
    qed
    show "inj_on fst (set (map ?g (filter ?Q [0..<length xs] @ filter (\<lambda>i. \<not> ?Q i) [0..<length xs])))"
      by (auto simp add: inj_on_def)
    show "sorted (map fst (map ?g [0..<length xs]))"
      by (simp add: comp_def)
  qed
  then have k: "sort_key fst (map ?g (positionsOf P xs @ positionsOf (\<lambda>x. \<not> P x) xs))
                  = map ?g [0..<length xs]"
    by (simp only: positionsOf_def)
  have e: "zip (positionsOf P xs) (filter P xs)
             @ zip (positionsOf (\<lambda>x. \<not> P x) xs) (filter (\<lambda>x. \<not> P x) xs)
           = map ?g (positionsOf P xs @ positionsOf (\<lambda>x. \<not> P x) xs)"
    by (simp add: z)
  show ?thesis
    unfolding e k by (simp add: comp_def map_nth)
qed

text \<open>The lookup as an association list read from the back.\<close>

lemma flattenLoop_map_of:
  "flattenLoop ps v flat = flat ++ map_of (rev (map (\<lambda>p. (keyOf v p, valueOf v p)) ps))"
proof (induction ps arbitrary: flat)
  case Nil
  then show ?case by simp
next
  case (Cons p ps)
  have "flattenLoop (p # ps) v flat = flattenLoop ps v (flat(keyOf v p \<mapsto> valueOf v p))"
    by (simp add: keyOf_def valueOf_def)
  also have "\<dots> = flat(keyOf v p \<mapsto> valueOf v p)
                    ++ map_of (rev (map (\<lambda>p. (keyOf v p, valueOf v p)) ps))"
    by (rule Cons.IH)
  also have "\<dots> = flat ++ map_of (rev (map (\<lambda>p. (keyOf v p, valueOf v p)) (p # ps)))"
    by (simp add: map_add_upd_left fun_eq_iff map_add_def split: option.splits)
  finally show ?case .
qed

lemma flattenData_map_of:
  "flattenData ps v = map_of (rev (map (\<lambda>p. (keyOf v p, valueOf v p)) ps))"
  by (simp add: flattenData_def flattenLoop_map_of)

section \<open>The claims\<close>

text \<open>In every theorem below, \<open>plot\<close> is the plot before the call of the hook,
  \<open>series\<close> the address of the subject series, \<open>reference\<close> the address of the series
  that its reference index resolves to, and \<open>R\<close> the plot after the call. The theorems
  about a partitioned subject assume that the subject and its parts are allocated and
  that it is \<open>partitionable\<close>.\<close>

text \<open>C1: for a partitioned subject, a point \<open>p\<close> of the subject is in the data of
  \<^verbatim>\<open>above\<close> exactly when its value is at least the value the lookup holds for its key,
  or its key is absent from the lookup; it is in the data of \<^verbatim>\<open>below\<close> exactly when
  the key is present and the value is strictly less than the lookup's value.\<close>

theorem compareSeries_classifies:
  fixes plot :: "'a::linorder plot" and d :: addr and dpts :: "'a datapoints"
  assumes "allocated plot series" and "partitionable plot series reference"
    and "p \<in> set (dataOf plot series)"
  defines "R \<equiv> compareSeries plot series d dpts"
  defines "lookup \<equiv> flattenData (dataOf plot reference) (vertical plot series)"
  defines "k \<equiv> keyOf (vertical plot series) p"
  defines "x \<equiv> valueOf (vertical plot series) p"
  shows "(p \<in> set (dataOf R (aboveOf plot R))
            \<longleftrightarrow> (\<exists>r. lookup k = Some r \<and> x \<ge> r) \<or> k \<notin> dom lookup)
       \<and> (p \<in> set (dataOf R (belowOf plot R))
            \<longleftrightarrow> (\<exists>r. lookup k = Some r \<and> x < r))"
  using assms(3)
  unfolding R_def lookup_def k_def x_def partitioned_data [OF assms(1,2)]
  by (auto simp add: isAbove_def split: option.splits)

text \<open>On the example (vertical): \<open>(1, 5)\<close> meets the reference value 5 and is above,
  \<open>(2, 3)\<close> is under the reference value 4 and is below, and \<open>(4, 0)\<close>, whose key 4 the
  reference does not have, is above.\<close>

theorem compareSeries_classifies_witness:
  "allocated (examplePlot False) exampleSubject
   \<and> partitionable (examplePlot False) exampleSubject exampleReference
   \<and> (1, 5) \<in> set (dataOf (examplePlot False) exampleSubject)
   \<and> (1, 5) \<in> set (dataOf (exampleResult False) (aboveOf (examplePlot False) (exampleResult False)))
   \<and> (1, 5) \<notin> set (dataOf (exampleResult False) (belowOf (examplePlot False) (exampleResult False)))
   \<and> (2, 3) \<in> set (dataOf (examplePlot False) exampleSubject)
   \<and> (2, 3) \<notin> set (dataOf (exampleResult False) (aboveOf (examplePlot False) (exampleResult False)))
   \<and> (2, 3) \<in> set (dataOf (exampleResult False) (belowOf (examplePlot False) (exampleResult False)))
   \<and> (4, 0) \<in> set (dataOf (examplePlot False) exampleSubject)
   \<and> (4, 0) \<in> set (dataOf (exampleResult False) (aboveOf (examplePlot False) (exampleResult False)))
   \<and> (4, 0) \<notin> set (dataOf (exampleResult False) (belowOf (examplePlot False) (exampleResult False)))"
proof -
  note al = example_allocated [of False] and pa = example_partitionable [of False]
  have m: "(1, 5) \<in> set (dataOf (examplePlot False) exampleSubject)"
    "(2, 3) \<in> set (dataOf (examplePlot False) exampleSubject)"
    "(4, 0) \<in> set (dataOf (examplePlot False) exampleSubject)"
    by (simp_all add: example_data)
  show ?thesis
    using al pa m
      compareSeries_classifies [OF al pa m(1), of "data (seriesStore (examplePlot False) exampleSubject)" exampleDatapoints]
      compareSeries_classifies [OF al pa m(2), of "data (seriesStore (examplePlot False) exampleSubject)" exampleDatapoints]
      compareSeries_classifies [OF al pa m(3), of "data (seriesStore (examplePlot False) exampleSubject)" exampleDatapoints]
    unfolding exampleResult_def [symmetric]
    by (simp add: example_vertical example_data flattenData_def keyOf_def valueOf_def)
qed

text \<open>C2: for a partitioned subject with N points, the lengths of the data of
  \<^verbatim>\<open>above\<close> and \<^verbatim>\<open>below\<close> add up to N, and every point of the subject, counted with
  its multiplicity, is in exactly one of the two.\<close>

theorem compareSeries_total:
  fixes plot :: "'a::linorder plot" and d :: addr and dpts :: "'a datapoints"
  assumes "allocated plot series" and "partitionable plot series reference"
  defines "R \<equiv> compareSeries plot series d dpts"
  shows "length (dataOf R (aboveOf plot R)) + length (dataOf R (belowOf plot R))
           = length (dataOf plot series)
       \<and> mset (dataOf R (aboveOf plot R)) + mset (dataOf R (belowOf plot R))
           = mset (dataOf plot series)"
  unfolding R_def partitioned_data [OF assms(1,2)]
  by (simp add: sum_length_filter_compl)

theorem compareSeries_total_witness:
  "allocated (examplePlot False) exampleSubject
   \<and> partitionable (examplePlot False) exampleSubject exampleReference
   \<and> length (dataOf (exampleResult False) (aboveOf (examplePlot False) (exampleResult False))) = 4
   \<and> length (dataOf (exampleResult False) (belowOf (examplePlot False) (exampleResult False))) = 1
   \<and> length (dataOf (exampleResult False) (aboveOf (examplePlot False) (exampleResult False)))
      + length (dataOf (exampleResult False) (belowOf (examplePlot False) (exampleResult False))) = 5"
proof -
  note al = example_allocated [of False] and pa = example_partitionable [of False]
  show ?thesis
    using al pa
      compareSeries_total [OF al pa, of "data (seriesStore (examplePlot False) exampleSubject)" exampleDatapoints]
    unfolding exampleResult_def [symmetric]
    by (simp add: example_data example_above_vertical example_below_vertical)
qed

text \<open>C3: for a partitioned subject, the data of \<^verbatim>\<open>above\<close> and of \<^verbatim>\<open>below\<close> are the
  subject's points at two increasing lists of positions \<open>ia\<close> and \<open>ib\<close>, which together are
  all positions of the subject, each once; and concatenating the two, each point tagged
  with its original position, and sorting stably by position gives the subject's data
  back, element for element.\<close>

theorem compareSeries_order:
  fixes plot :: "'a::linorder plot" and d :: addr and dpts :: "'a datapoints"
  assumes "allocated plot series" and "partitionable plot series reference"
  defines "R \<equiv> compareSeries plot series d dpts"
  defines "lookup \<equiv> flattenData (dataOf plot reference) (vertical plot series)"
  defines "subj \<equiv> dataOf plot series"
  defines "ia \<equiv> positionsOf (isAbove lookup (vertical plot series)) subj"
  defines "ib \<equiv> positionsOf (\<lambda>p. \<not> isAbove lookup (vertical plot series) p) subj"
  shows "sorted_wrt (<) ia \<and> sorted_wrt (<) ib
       \<and> set ia \<union> set ib = {..<length subj} \<and> set ia \<inter> set ib = {}
       \<and> dataOf R (aboveOf plot R) = map ((!) subj) ia
       \<and> dataOf R (belowOf plot R) = map ((!) subj) ib
       \<and> map snd (sort_key fst (zip ia (dataOf R (aboveOf plot R))
                                  @ zip ib (dataOf R (belowOf plot R)))) = subj"
proof -
  have "set ia \<union> set ib = {..<length subj}" "set ia \<inter> set ib = {}"
    by (auto simp add: ia_def ib_def positionsOf_def)
  then show ?thesis
    unfolding R_def partitioned_data [OF assms(1,2)]
    unfolding ia_def ib_def lookup_def subj_def
    by (simp add: sorted_positionsOf map_nth_positionsOf merge_positionsOf)
qed

theorem compareSeries_order_witness:
  "allocated (examplePlot False) exampleSubject
   \<and> partitionable (examplePlot False) exampleSubject exampleReference
   \<and> dataOf (exampleResult False) (aboveOf (examplePlot False) (exampleResult False))
       = map ((!) (dataOf (examplePlot False) exampleSubject)) [0, 2, 3, 4]
   \<and> dataOf (exampleResult False) (belowOf (examplePlot False) (exampleResult False))
       = map ((!) (dataOf (examplePlot False) exampleSubject)) [1]
   \<and> map snd (sort_key fst
        (zip [0, 2, 3, 4 :: nat] (dataOf (exampleResult False) (aboveOf (examplePlot False) (exampleResult False)))
         @ zip [1 :: nat] (dataOf (exampleResult False) (belowOf (examplePlot False) (exampleResult False)))))
       = [(1, 5), (2, 3), (3, 8), (4, 0), (0, 5)]"
proof -
  note al = example_allocated [of False] and pa = example_partitionable [of False]
  have ia: "positionsOf (isAbove (flattenData (dataOf (examplePlot False) exampleReference)
                (vertical (examplePlot False) exampleSubject)) (vertical (examplePlot False) exampleSubject))
              (dataOf (examplePlot False) exampleSubject) = [0, 2, 3, 4]"
    by (simp add: example_vertical example_data positionsOf_def isAbove_def keyOf_def valueOf_def
        flattenData_def)
  have ib: "positionsOf (\<lambda>p. \<not> isAbove (flattenData (dataOf (examplePlot False) exampleReference)
                (vertical (examplePlot False) exampleSubject)) (vertical (examplePlot False) exampleSubject) p)
              (dataOf (examplePlot False) exampleSubject) = [1]"
    by (simp add: example_vertical example_data positionsOf_def isAbove_def keyOf_def valueOf_def
        flattenData_def)
  show ?thesis
    using al pa
      compareSeries_order [OF al pa, of "data (seriesStore (examplePlot False) exampleSubject)" exampleDatapoints]
    unfolding exampleResult_def [symmetric] ia ib
    by (simp add: example_data)
qed

text \<open>C4, the case of a series whose reference index is its own position in the series
  list: the hook skips it only while the counter of the closure is in step with the
  list. In the example every series compares with index 0, so the series at index 0
  refers to itself. On the first pass the hook skips it. The pass makes four calls and
  leaves the counter at 3; the source never resets it. When the host processes the same
  series again, the hook called for the series at index 0 compares its reference index
  0 with the counter 4, resolves index 0 to the series itself and partitions it against
  itself: two series are appended to the list, every point of the series goes to the
  first of them, and the three \<^verbatim>\<open>show\<close> flags of the series are cleared. (The other two
  cases of the claim, comparison disabled and an index that resolves to no series, are
  \<open>compareSeries_noop\<close>.)\<close>

theorem compareSeries_self_on_second_pass:
  "getData exampleAllSeries ! 0 = exampleReference
   \<and> enabled (compare (seriesStore exampleAllSeries exampleReference))
   \<and> seriesIndex (compare (seriesStore exampleAllSeries exampleReference)) = Some 0
   \<and> callHook 0 exampleAllSeries = exampleAllSeries\<lparr>currentSeries := 0\<rparr>
   \<and> getData exampleFirstPass = [0, 1, 2, 3]
   \<and> currentSeries exampleFirstPass = 3
   \<and> currentSeries exampleSecondPass = 3
   \<and> getData exampleSecondPass = [exampleReference, exampleSubject]
   \<and> seriesStore exampleSecondPass = seriesStore exampleAllSeries
   \<and> getData (callHook 0 exampleSecondPass) = [exampleReference, exampleSubject, 2, 3]
   \<and> dataOf (callHook 0 exampleSecondPass) 2 = [(1, 5), (2, 4), (3, 7)]
   \<and> dataOf (callHook 0 exampleSecondPass) 3 = []
   \<and> showFlag (styleStore exampleSecondPass (bars (seriesStore exampleSecondPass exampleReference)))
   \<and> \<not> showFlag (styleStore (callHook 0 exampleSecondPass)
           (bars (seriesStore exampleSecondPass exampleReference)))
   \<and> \<not> showFlag (styleStore (callHook 0 exampleSecondPass)
           (lines (seriesStore exampleSecondPass exampleReference)))
   \<and> \<not> showFlag (styleStore (callHook 0 exampleSecondPass)
           (points (seriesStore exampleSecondPass exampleReference)))
   \<and> callHook 0 exampleSecondPass
       \<noteq> exampleSecondPass\<lparr>currentSeries := currentSeries exampleSecondPass + 1\<rparr>"
proof -
  note al = second_pass_facts(1) and pa = second_pass_facts(2)
  let ?R = "compareSeries exampleSecondPass exampleReference
              (data (seriesStore exampleSecondPass exampleReference))
              \<lparr>dp_points = [], pointsize = Undefined, format = Undefined\<rparr>"
  have h: "callHook 0 exampleSecondPass = ?R"
    by (simp add: callHook_def second_pass_facts)
  have a: "getData exampleAllSeries ! 0 = exampleReference"
    "enabled (compare (seriesStore exampleAllSeries exampleReference))"
    "seriesIndex (compare (seriesStore exampleAllSeries exampleReference)) = Some 0"
    "currentSeries exampleSecondPass = 3"
    "seriesStore exampleSecondPass = seriesStore exampleAllSeries"
    by (simp_all add: all_series_facts series_facts exampleSecondPass_def first_pass)
  have ab: "aboveOf exampleSecondPass ?R = 2" "belowOf exampleSecondPass ?R = 3"
    by (simp_all add: partitioned_aboveOf [OF al pa] second_pass_facts)
  have g: "getData ?R = [exampleReference, exampleSubject, 2, 3]"
    by (simp add: compareSeries_partitioned [OF al pa] second_pass_facts)
  have d: "dataOf ?R 2 = [(1, 5), (2, 4), (3, 7)]" "dataOf ?R 3 = []"
    using partitioned_data [OF al pa, of "data (seriesStore exampleSecondPass exampleReference)"
        "\<lparr>dp_points = [], pointsize = Undefined, format = Undefined\<rparr>"]
    unfolding ab
    by (simp_all add: second_pass_facts isAbove_def keyOf_def valueOf_def flattenData_def)
  have s: "\<not> showFlag (styleStore ?R (bars (seriesStore exampleSecondPass exampleReference)))"
    "\<not> showFlag (styleStore ?R (lines (seriesStore exampleSecondPass exampleReference)))"
    "\<not> showFlag (styleStore ?R (points (seriesStore exampleSecondPass exampleReference)))"
    by (simp_all add: partitioned_styles(7) [OF al pa] styleGroups_def)
  have b: "showFlag (styleStore exampleSecondPass (bars (seriesStore exampleSecondPass exampleReference)))"
    by (rule second_pass_facts)
  have "getData ?R \<noteq> getData (exampleSecondPass\<lparr>currentSeries := currentSeries exampleSecondPass + 1\<rparr>)"
    by (simp add: g second_pass_facts)
  then have n: "?R \<noteq> exampleSecondPass\<lparr>currentSeries := currentSeries exampleSecondPass + 1\<rparr>"
    by auto
  show ?thesis
    unfolding h using a first_pass_skips_self first_pass second_pass_facts(3) g d s b n by simp
qed

theorem compareSeries_self_on_second_pass_witness:
  "length (getData exampleSecondPass) = 2
   \<and> length (getData (callHook 0 exampleSecondPass)) = 4
   \<and> length (dataOf (callHook 0 exampleSecondPass) 2) = 3"
  using compareSeries_self_on_second_pass by simp

text \<open>C5: a partitioning call appends the addresses of \<^verbatim>\<open>above\<close> and \<^verbatim>\<open>below\<close>, in this
  order, to the series list, both fresh; it sets \<^verbatim>\<open>show\<close> to false in the subject's
  \<^verbatim>\<open>bars\<close>, \<^verbatim>\<open>lines\<close> and \<^verbatim>\<open>points\<close> and changes nothing else in them; every other
  option group that existed, every series object that existed (the subject's included),
  every array that existed (the subject's data included) and every object that a
  property of a group refers to is as before.\<close>

theorem compareSeries_frame:
  fixes plot :: "'a::linorder plot" and d :: addr and dpts :: "'a datapoints"
  assumes "allocated plot series" and "partitionable plot series reference"
  defines "R \<equiv> compareSeries plot series d dpts"
  defines "s \<equiv> seriesStore plot series"
  shows "getData R = getData plot @ [aboveOf plot R, belowOf plot R]
       \<and> aboveOf plot R = nextSeries plot \<and> belowOf plot R = Suc (nextSeries plot)
       \<and> color (seriesStore R (aboveOf plot R)) = colorAbove (compare s)
       \<and> color (seriesStore R (belowOf plot R)) = colorBelow (compare s)
       \<and> \<not> showFlag (styleStore R (bars s))
       \<and> \<not> showFlag (styleStore R (lines s))
       \<and> \<not> showFlag (styleStore R (points s))
       \<and> (\<forall>a < nextStyle plot.
             styleStore R a =
               (if a \<in> styleGroups s then (styleStore plot a)\<lparr>showFlag := False\<rparr>
                else styleStore plot a))
       \<and> (\<forall>a < nextSeries plot. seriesStore R a = seriesStore plot a)
       \<and> (\<forall>a < nextArray plot. arrayStore R a = arrayStore plot a)
       \<and> dataOf R series = dataOf plot series
       \<and> objectStore R = objectStore plot"
proof -
  note R = compareSeries_partitioned [OF assms(1,2), of d dpts]
  note ab = partitioned_aboveOf [OF assms(1,2), of d dpts]
  have al: "series < nextSeries plot" "data s < nextArray plot"
    "bars s < nextStyle plot" "lines s < nextStyle plot" "points s < nextStyle plot"
    using assms(1) by (simp_all add: allocated_def s_def)
  have g: "getData R = getData plot @ [aboveOf plot R, belowOf plot R]"
    unfolding R_def ab by (simp add: R)
  have c: "color (seriesStore R (aboveOf plot R)) = colorAbove (compare s)"
    "color (seriesStore R (belowOf plot R)) = colorBelow (compare s)"
    unfolding R_def ab by (simp_all add: R derived_def s_def)
  have st: "styleStore R a =
      (if a \<in> styleGroups s then (styleStore plot a)\<lparr>showFlag := False\<rparr> else styleStore plot a)"
    if "a < nextStyle plot" for a
    using that al unfolding R_def s_def
    by (auto simp add: R hide_def styleGroups_def)
  have h: "\<not> showFlag (styleStore R (bars s))" "\<not> showFlag (styleStore R (lines s))"
    "\<not> showFlag (styleStore R (points s))"
    using al by (simp_all add: st styleGroups_def)
  have se: "seriesStore R a = seriesStore plot a" if "a < nextSeries plot" for a
    using that unfolding R_def by (simp add: R)
  have ar: "arrayStore R a = arrayStore plot a" if "a < nextArray plot" for a
    using that unfolding R_def by (simp add: R)
  have da: "dataOf R series = dataOf plot series"
    using al(1,2) by (simp add: dataOf_def se ar s_def)
  have ob: "objectStore R = objectStore plot"
    unfolding R_def by (simp add: R)
  show ?thesis
    using g c h st se ar da ab ob by (simp add: R_def)
qed

theorem compareSeries_frame_witness:
  "allocated (examplePlot False) exampleSubject
   \<and> partitionable (examplePlot False) exampleSubject exampleReference
   \<and> getData (examplePlot False) = [0, 1]
   \<and> getData (exampleResult False) = [0, 1, 2, 3]
   \<and> color (seriesStore (exampleResult False) 2) = Str ''#FF0000''
   \<and> color (seriesStore (exampleResult False) 3) = Str ''#00FF00''
   \<and> showFlag (styleStore (examplePlot False) (bars (seriesStore (examplePlot False) exampleSubject)))
   \<and> \<not> showFlag (styleStore (exampleResult False) (bars (seriesStore (examplePlot False) exampleSubject)))
   \<and> \<not> showFlag (styleStore (exampleResult False) (lines (seriesStore (examplePlot False) exampleSubject)))
   \<and> \<not> showFlag (styleStore (exampleResult False) (points (seriesStore (examplePlot False) exampleSubject)))
   \<and> styleStore (exampleResult False) 0 = styleStore (examplePlot False) 0
   \<and> seriesStore (exampleResult False) exampleReference = seriesStore (examplePlot False) exampleReference
   \<and> seriesStore (exampleResult False) exampleSubject = seriesStore (examplePlot False) exampleSubject
   \<and> dataOf (exampleResult False) exampleReference = [(1, 5), (2, 4), (3, 7)]
   \<and> dataOf (exampleResult False) exampleSubject = [(1, 5), (2, 3), (3, 8), (4, 0), (0, 5)]"
proof -
  note al = example_allocated [of False] and pa = example_partitionable [of False]
  have n: "nextSeries (examplePlot False) = 2" "nextStyle (examplePlot False) = 6"
    "nextArray (examplePlot False) = 2" "getData (examplePlot False) = [0, 1]"
    "exampleReference < 2" "exampleSubject < 2"
    "data (seriesStore (examplePlot False) exampleReference) = 0"
    "0 \<notin> styleGroups (seriesStore (examplePlot False) exampleSubject)"
    "showFlag (styleStore (examplePlot False) (bars (seriesStore (examplePlot False) exampleSubject)))"
    "colorAbove (compare (seriesStore (examplePlot False) exampleSubject)) = Str ''#FF0000''"
    "colorBelow (compare (seriesStore (examplePlot False) exampleSubject)) = Str ''#00FF00''"
    by (simp_all add: examplePlot_def exampleReference_def exampleSubject_def exampleSeries_def options_series_compare_def
        exampleStyle_def styleGroups_def)
  have r: "dataOf (exampleResult False) exampleReference = dataOf (examplePlot False) exampleReference"
    using compareSeries_frame [OF al pa, of "data (seriesStore (examplePlot False) exampleSubject)" exampleDatapoints]
    unfolding exampleResult_def [symmetric]
    by (simp add: n dataOf_def)
  note fr = compareSeries_frame [OF al pa,
      of "data (seriesStore (examplePlot False) exampleSubject)" exampleDatapoints,
      folded exampleResult_def]
  have ab: "aboveOf (examplePlot False) (exampleResult False) = 2"
    "belowOf (examplePlot False) (exampleResult False) = 3"
    using fr by (simp_all add: n)
  show ?thesis
    using al pa r fr [unfolded ab]
    by (simp add: n example_data)
qed

text \<open>C6: \<open>flattenData\<close> is a function of the point sequence and the orientation alone.
  Its result is the association list of (key, value) pairs read from the back, so its
  keys are exactly the keys that occur in the sequence, and the value kept for a key is
  the one of the last point with that key.\<close>

theorem flattenData_last_wins:
  "flattenData ps v = map_of (rev (map (\<lambda>p. (keyOf v p, valueOf v p)) ps))
   \<and> dom (flattenData ps v) = keyOf v ` set ps
   \<and> (\<forall>xs p ys. ps = xs @ p # ys \<and> keyOf v p \<notin> keyOf v ` set ys
         \<longrightarrow> flattenData ps v (keyOf v p) = Some (valueOf v p))"
proof -
  have m: "flattenData ps v = map_of (rev (map (\<lambda>p. (keyOf v p, valueOf v p)) ps))"
    by (rule flattenData_map_of)
  have d: "dom (flattenData ps v) = keyOf v ` set ps"
    by (simp add: m dom_map_of_conv_image_fst image_image)
  have l: "flattenData ps v (keyOf v p) = Some (valueOf v p)"
    if "ps = xs @ p # ys" and "keyOf v p \<notin> keyOf v ` set ys" for xs p ys
  proof -
    have "map_of (rev (map (\<lambda>p. (keyOf v p, valueOf v p)) ys)) (keyOf v p) = None"
      using that(2) by (simp add: map_of_eq_None_iff image_image)
    then show ?thesis
      unfolding that(1) flattenData_map_of by (simp add: map_add_def)
  qed
  show ?thesis using m d l by blast
qed

theorem flattenData_last_wins_witness:
  "[(1, 5), (2, 4), (1, 9 :: int)] = [(1, 5)] @ (2, 4) # [(1, 9)]
   \<and> keyOf True (2 :: int, 4 :: int) \<notin> keyOf True ` set [(1, 9)]
   \<and> flattenData [(1, 5), (2, 4), (1, 9 :: int)] True 2 = Some 4
   \<and> flattenData [(1, 5), (2, 4), (1, 9 :: int)] True 1 = Some 9
   \<and> flattenData [(1, 5), (2, 4), (1, 9 :: int)] True 3 = None
   \<and> dom (flattenData [(1, 5), (2, 4), (1, 9 :: int)] True) = {1, 2}
   \<and> flattenData [(1, 5), (2, 4), (1, 9 :: int)] False 5 = Some 1"
proof -
  have a: "[(1, 5), (2, 4), (1, 9 :: int)] = [(1, 5)] @ (2, 4) # [(1, 9)]
           \<and> keyOf True (2 :: int, 4 :: int) \<notin> keyOf True ` set [(1, 9)]"
    and b: "[(1, 5), (2, 4), (1, 9 :: int)] = [(1, 5), (2, 4)] @ (1, 9) # []
           \<and> keyOf True (1 :: int, 9 :: int) \<notin> keyOf True ` set []"
    and c: "[(1, 5), (2, 4), (1, 9 :: int)] = [] @ (1, 5) # [(2, 4), (1, 9)]
           \<and> keyOf False (1 :: int, 5 :: int) \<notin> keyOf False ` set [(2, 4), (1, 9)]"
    by (simp_all add: keyOf_def)
  note t = flattenData_last_wins [of "[(1, 5), (2, 4), (1, 9 :: int)]" True]
  note f = flattenData_last_wins [of "[(1, 5), (2, 4), (1, 9 :: int)]" False]
  have "flattenData [(1, 5), (2, 4), (1, 9 :: int)] True (keyOf True (2, 4)) = Some (valueOf True (2, 4))"
    using t a by blast
  moreover have "flattenData [(1, 5), (2, 4), (1, 9 :: int)] True (keyOf True (1, 9)) = Some (valueOf True (1, 9))"
    using t b by blast
  moreover have "flattenData [(1, 5), (2, 4), (1, 9 :: int)] False (keyOf False (1, 5)) = Some (valueOf False (1, 5))"
    using f c by blast
  moreover have "dom (flattenData [(1, 5), (2, 4), (1, 9 :: int)] True) = keyOf True ` set [(1, 5), (2, 4), (1, 9)]"
    using t by blast
  moreover have "flattenData [(1, 5), (2, 4), (1, 9 :: int)] True 3 = None"
    using t by (simp add: keyOf_def valueOf_def)
  ultimately show ?thesis
    using a by (simp add: keyOf_def valueOf_def insert_commute)
qed

text \<open>C7: the orientation is horizontal exactly when the subject's \<^verbatim>\<open>bars\<close> are shown
  and horizontal, and vertical otherwise. In the horizontal case the reference's points
  are read as (key = second coordinate, value = first coordinate) and so are the
  subject's; in the vertical case both are read as (key = first, value = second). The
  result depends on the option groups only through the subject's \<^verbatim>\<open>bars\<close>: with any
  other style store that agrees on that one group (so whatever the reference's own
  flags are), the two derived data are the same.\<close>

theorem compareSeries_orientation:
  fixes plot :: "'a::linorder plot" and d :: addr and dpts :: "'a datapoints"
  assumes "allocated plot series" and "partitionable plot series reference"
  defines "R \<equiv> compareSeries plot series d dpts"
  defines "b \<equiv> styleStore plot (bars (seriesStore plot series))"
  defines "ref \<equiv> dataOf plot reference"
  defines "subj \<equiv> dataOf plot series"
  shows "(showFlag b \<and> horizontal b \<longrightarrow>
            flattenData ref (vertical plot series) = map_of (rev (map (\<lambda>(x, y). (y, x)) ref))
          \<and> dataOf R (aboveOf plot R) =
              filter (\<lambda>(x, y). case map_of (rev (map (\<lambda>(x, y). (y, x)) ref)) y of
                                 None \<Rightarrow> True | Some r \<Rightarrow> r \<le> x) subj
          \<and> dataOf R (belowOf plot R) =
              filter (\<lambda>(x, y). case map_of (rev (map (\<lambda>(x, y). (y, x)) ref)) y of
                                 None \<Rightarrow> False | Some r \<Rightarrow> x < r) subj)
       \<and> (\<not> (showFlag b \<and> horizontal b) \<longrightarrow>
            flattenData ref (vertical plot series) = map_of (rev ref)
          \<and> dataOf R (aboveOf plot R) =
              filter (\<lambda>(x, y). case map_of (rev ref) x of
                                 None \<Rightarrow> True | Some r \<Rightarrow> r \<le> y) subj
          \<and> dataOf R (belowOf plot R) =
              filter (\<lambda>(x, y). case map_of (rev ref) x of
                                 None \<Rightarrow> False | Some r \<Rightarrow> y < r) subj)
       \<and> (\<forall>st. st (bars (seriesStore plot series)) = b \<longrightarrow>
            dataOf (compareSeries (plot\<lparr>styleStore := st\<rparr>) series d dpts)
                   (aboveOf (plot\<lparr>styleStore := st\<rparr>)
                      (compareSeries (plot\<lparr>styleStore := st\<rparr>) series d dpts))
              = dataOf R (aboveOf plot R)
          \<and> dataOf (compareSeries (plot\<lparr>styleStore := st\<rparr>) series d dpts)
                   (belowOf (plot\<lparr>styleStore := st\<rparr>)
                      (compareSeries (plot\<lparr>styleStore := st\<rparr>) series d dpts))
              = dataOf R (belowOf plot R))"
proof -
  note pd = partitioned_data [OF assms(1,2), of d dpts, folded R_def]
  have v: "vertical plot series \<longleftrightarrow> \<not> (showFlag b \<and> horizontal b)"
    by (simp add: vertical_def b_def)
  have hor: "flattenData ref False = map_of (rev (map (\<lambda>(x, y). (y, x)) ref))"
    by (simp add: flattenData_map_of keyOf_def valueOf_def case_prod_unfold)
  have ver: "flattenData ref True = map_of (rev ref)"
    by (simp add: flattenData_map_of keyOf_def valueOf_def)
  have fh: "filter (isAbove lookup False) subj =
              filter (\<lambda>(x, y). case lookup y of None \<Rightarrow> True | Some r \<Rightarrow> r \<le> x) subj"
    "filter (\<lambda>p. \<not> isAbove lookup False p) subj =
              filter (\<lambda>(x, y). case lookup y of None \<Rightarrow> False | Some r \<Rightarrow> x < r) subj"
    "filter (isAbove lookup True) subj =
              filter (\<lambda>(x, y). case lookup x of None \<Rightarrow> True | Some r \<Rightarrow> r \<le> y) subj"
    "filter (\<lambda>p. \<not> isAbove lookup True p) subj =
              filter (\<lambda>(x, y). case lookup x of None \<Rightarrow> False | Some r \<Rightarrow> y < r) subj"
    for lookup :: "'a \<rightharpoonup> 'a"
    by (auto intro!: filter_cong simp add: isAbove_def keyOf_def valueOf_def split: option.splits)
  have H: "showFlag b \<and> horizontal b \<longrightarrow>
            flattenData ref (vertical plot series) = map_of (rev (map (\<lambda>(x, y). (y, x)) ref))
          \<and> dataOf R (aboveOf plot R) =
              filter (\<lambda>(x, y). case map_of (rev (map (\<lambda>(x, y). (y, x)) ref)) y of
                                 None \<Rightarrow> True | Some r \<Rightarrow> r \<le> x) subj
          \<and> dataOf R (belowOf plot R) =
              filter (\<lambda>(x, y). case map_of (rev (map (\<lambda>(x, y). (y, x)) ref)) y of
                                 None \<Rightarrow> False | Some r \<Rightarrow> x < r) subj"
    unfolding pd by (simp add: v hor fh flip: ref_def subj_def)
  have V: "\<not> (showFlag b \<and> horizontal b) \<longrightarrow>
            flattenData ref (vertical plot series) = map_of (rev ref)
          \<and> dataOf R (aboveOf plot R) =
              filter (\<lambda>(x, y). case map_of (rev ref) x of
                                 None \<Rightarrow> True | Some r \<Rightarrow> r \<le> y) subj
          \<and> dataOf R (belowOf plot R) =
              filter (\<lambda>(x, y). case map_of (rev ref) x of
                                 None \<Rightarrow> False | Some r \<Rightarrow> y < r) subj"
    unfolding pd by (simp add: v ver fh flip: ref_def subj_def)
  have N: "dataOf (compareSeries (plot\<lparr>styleStore := st\<rparr>) series d dpts)
                   (aboveOf (plot\<lparr>styleStore := st\<rparr>)
                      (compareSeries (plot\<lparr>styleStore := st\<rparr>) series d dpts))
              = dataOf R (aboveOf plot R)
          \<and> dataOf (compareSeries (plot\<lparr>styleStore := st\<rparr>) series d dpts)
                   (belowOf (plot\<lparr>styleStore := st\<rparr>)
                      (compareSeries (plot\<lparr>styleStore := st\<rparr>) series d dpts))
              = dataOf R (belowOf plot R)"
    if "st (bars (seriesStore plot series)) = b" for st
  proof -
    let ?plot = "plot\<lparr>styleStore := st\<rparr>"
    have al': "allocated ?plot series"
      using assms(1) by (simp add: allocated_def)
    have pa': "partitionable ?plot series reference"
      using assms(2) by (simp add: partitionable_def subjectPosition_def getSeries_styleStore)
    have v': "vertical ?plot series = vertical plot series"
      using that by (simp add: vertical_def b_def)
    have d': "dataOf ?plot a = dataOf plot a" for a
      by (simp add: dataOf_def)
    show ?thesis
      unfolding pd partitioned_data [OF al' pa'] v' d' by simp
  qed
  show ?thesis
    using H V N by blast
qed

text \<open>On the example: with the subject's bars horizontal only \<open>(0, 5)\<close>, whose key 5 has
  the reference value 1, is below; vertical, only \<open>(2, 3)\<close> is; and drawing the reference
  as horizontal bars changes nothing.\<close>

theorem compareSeries_orientation_witness:
  "allocated (examplePlot True) exampleSubject
   \<and> partitionable (examplePlot True) exampleSubject exampleReference
   \<and> showFlag (styleStore (examplePlot True) (bars (seriesStore (examplePlot True) exampleSubject)))
   \<and> horizontal (styleStore (examplePlot True) (bars (seriesStore (examplePlot True) exampleSubject)))
   \<and> dataOf (exampleResult True) (aboveOf (examplePlot True) (exampleResult True))
       = [(1, 5), (2, 3), (3, 8), (4, 0)]
   \<and> dataOf (exampleResult True) (belowOf (examplePlot True) (exampleResult True)) = [(0, 5)]
   \<and> allocated (examplePlot False) exampleSubject
   \<and> partitionable (examplePlot False) exampleSubject exampleReference
   \<and> \<not> horizontal (styleStore (examplePlot False) (bars (seriesStore (examplePlot False) exampleSubject)))
   \<and> dataOf (exampleResult False) (aboveOf (examplePlot False) (exampleResult False))
       = [(1, 5), (3, 8), (4, 0), (0, 5)]
   \<and> dataOf (exampleResult False) (belowOf (examplePlot False) (exampleResult False)) = [(2, 3)]
   \<and> horizontal (styleStore exampleReferenceHorizontal
         (bars (seriesStore exampleReferenceHorizontal exampleReference)))
   \<and> dataOf (compareSeries exampleReferenceHorizontal exampleSubject
                (data (seriesStore (examplePlot False) exampleSubject)) exampleDatapoints)
         (aboveOf exampleReferenceHorizontal
            (compareSeries exampleReferenceHorizontal exampleSubject
               (data (seriesStore (examplePlot False) exampleSubject)) exampleDatapoints))
       = [(1, 5), (3, 8), (4, 0), (0, 5)]"
proof -
  note al = example_allocated and pa = example_partitionable
  have b: "showFlag (styleStore (examplePlot h) (bars (seriesStore (examplePlot h) exampleSubject)))"
    "horizontal (styleStore (examplePlot h) (bars (seriesStore (examplePlot h) exampleSubject))) = h"
    for h
    by (simp_all add: examplePlot_def exampleSeries_def options_series_compare_def exampleStyle_def exampleSubject_def)
  have r: "horizontal (styleStore exampleReferenceHorizontal
             (bars (seriesStore exampleReferenceHorizontal exampleReference)))"
    "((styleStore (examplePlot False))
        (bars (seriesStore (examplePlot False) exampleReference) := exampleStyle True True))
        (bars (seriesStore (examplePlot False) exampleSubject))
      = styleStore (examplePlot False) (bars (seriesStore (examplePlot False) exampleSubject))"
    by (simp_all add: exampleReferenceHorizontal_def examplePlot_def exampleSeries_def options_series_compare_def
        exampleStyle_def exampleSubject_def exampleReference_def)
  note T = compareSeries_orientation [OF al [of True] pa [of True],
      of "data (seriesStore (examplePlot True) exampleSubject)" exampleDatapoints,
      folded exampleResult_def]
  note F = compareSeries_orientation [OF al [of False] pa [of False],
      of "data (seriesStore (examplePlot False) exampleSubject)" exampleDatapoints,
      folded exampleResult_def]
  have 1: "dataOf (exampleResult True) (aboveOf (examplePlot True) (exampleResult True))
             = [(1, 5), (2, 3), (3, 8), (4, 0)]"
    "dataOf (exampleResult True) (belowOf (examplePlot True) (exampleResult True)) = [(0, 5)]"
    using T by (simp_all add: b example_data)
  have 2: "dataOf (exampleResult False) (aboveOf (examplePlot False) (exampleResult False))
             = [(1, 5), (3, 8), (4, 0), (0, 5)]"
    "dataOf (exampleResult False) (belowOf (examplePlot False) (exampleResult False)) = [(2, 3)]"
    using F by (simp_all add: b example_data)
  have 3: "dataOf (compareSeries exampleReferenceHorizontal exampleSubject
                (data (seriesStore (examplePlot False) exampleSubject)) exampleDatapoints)
         (aboveOf exampleReferenceHorizontal
            (compareSeries exampleReferenceHorizontal exampleSubject
               (data (seriesStore (examplePlot False) exampleSubject)) exampleDatapoints))
       = dataOf (exampleResult False) (aboveOf (examplePlot False) (exampleResult False))"
    using F r(2) unfolding exampleReferenceHorizontal_def by blast
  show ?thesis
    using al [of True] pa [of True] al [of False] pa [of False] 1 2 3 r(1)
    by (simp add: b)
qed

text \<open>C8, as the code has it: \<open>copySeries\<close> copies each of the groups \<^verbatim>\<open>bars\<close>,
  \<^verbatim>\<open>lines\<close> and \<^verbatim>\<open>points\<close> one level deep. After a partitioning call the groups of
  \<^verbatim>\<open>above\<close>, of \<^verbatim>\<open>below\<close> and of the subject are pairwise separate objects: whatever is
  assigned to a property of a group of one of the three series, the groups of the other
  two read as before. Each group of a copy holds the flags \<^verbatim>\<open>show\<close> and \<^verbatim>\<open>horizontal\<close>
  of the subject's group as they were before the call, and its other properties except
  those that are \<^verbatim>\<open>undefined\<close>. A property whose value is an object is copied as the
  reference: the groups of \<^verbatim>\<open>above\<close>, of \<^verbatim>\<open>below\<close> and of the subject refer to the
  same objects, and the call writes none of them.\<close>

theorem compareSeries_style_one_level:
  fixes plot :: "'a::linorder plot" and d :: addr and dpts :: "'a datapoints"
  assumes "allocated plot series" and "partitionable plot series reference"
  defines "R \<equiv> compareSeries plot series d dpts"
  defines "s \<equiv> seriesStore plot series"
  defines "A \<equiv> seriesStore R (aboveOf plot R)"
  defines "B \<equiv> seriesStore R (belowOf plot R)"
  shows "independent R (aboveOf plot R) (belowOf plot R)
       \<and> independent R (aboveOf plot R) series
       \<and> independent R (belowOf plot R) (aboveOf plot R)
       \<and> independent R (belowOf plot R) series
       \<and> independent R series (aboveOf plot R)
       \<and> independent R series (belowOf plot R)
       \<and> styleStore R (bars A) =
            \<lparr>showFlag = showFlag (styleStore plot (bars s)),
             horizontal = horizontal (styleStore plot (bars s)),
             otherOpts = filter (\<lambda>(name, v). v \<noteq> Undefined) (otherOpts (styleStore plot (bars s)))\<rparr>
       \<and> styleStore R (lines A) =
            \<lparr>showFlag = showFlag (styleStore plot (lines s)),
             horizontal = horizontal (styleStore plot (lines s)),
             otherOpts = filter (\<lambda>(name, v). v \<noteq> Undefined) (otherOpts (styleStore plot (lines s)))\<rparr>
       \<and> styleStore R (points A) =
            \<lparr>showFlag = showFlag (styleStore plot (points s)),
             horizontal = horizontal (styleStore plot (points s)),
             otherOpts = filter (\<lambda>(name, v). v \<noteq> Undefined) (otherOpts (styleStore plot (points s)))\<rparr>
       \<and> styleStore R (bars B) =
            \<lparr>showFlag = showFlag (styleStore plot (bars s)),
             horizontal = horizontal (styleStore plot (bars s)),
             otherOpts = filter (\<lambda>(name, v). v \<noteq> Undefined) (otherOpts (styleStore plot (bars s)))\<rparr>
       \<and> styleStore R (lines B) =
            \<lparr>showFlag = showFlag (styleStore plot (lines s)),
             horizontal = horizontal (styleStore plot (lines s)),
             otherOpts = filter (\<lambda>(name, v). v \<noteq> Undefined) (otherOpts (styleStore plot (lines s)))\<rparr>
       \<and> styleStore R (points B) =
            \<lparr>showFlag = showFlag (styleStore plot (points s)),
             horizontal = horizontal (styleStore plot (points s)),
             otherOpts = filter (\<lambda>(name, v). v \<noteq> Undefined) (otherOpts (styleStore plot (points s)))\<rparr>
       \<and> nestedObjects (styleStore R (bars A)) = nestedObjects (styleStore plot (bars s))
       \<and> nestedObjects (styleStore R (lines A)) = nestedObjects (styleStore plot (lines s))
       \<and> nestedObjects (styleStore R (points A)) = nestedObjects (styleStore plot (points s))
       \<and> nestedObjects (styleStore R (bars B)) = nestedObjects (styleStore plot (bars s))
       \<and> nestedObjects (styleStore R (lines B)) = nestedObjects (styleStore plot (lines s))
       \<and> nestedObjects (styleStore R (points B)) = nestedObjects (styleStore plot (points s))
       \<and> nestedObjects (styleStore R (bars (seriesStore R series))) = nestedObjects (styleStore plot (bars s))
       \<and> nestedObjects (styleStore R (lines (seriesStore R series))) = nestedObjects (styleStore plot (lines s))
       \<and> nestedObjects (styleStore R (points (seriesStore R series))) = nestedObjects (styleStore plot (points s))
       \<and> objectStore R = objectStore plot"
proof -
  note g = partitioned_styleGroups [OF assms(1,2)]
  note c = partitioned_styles [OF assms(1,2)]
  have i: "independent R (aboveOf plot R) (belowOf plot R)"
    "independent R (aboveOf plot R) series"
    "independent R (belowOf plot R) (aboveOf plot R)"
    "independent R (belowOf plot R) series"
    "independent R series (aboveOf plot R)"
    "independent R series (belowOf plot R)"
    unfolding R_def by (auto intro!: independent_disjoint simp add: g(1,2,3) dest!: g(4))
  have e: "extendStyle g =
      \<lparr>showFlag = showFlag g, horizontal = horizontal g,
       otherOpts = filter (\<lambda>(name, v). v \<noteq> Undefined) (otherOpts g)\<rparr>" for g :: "'a style"
    by (simp add: extendStyle_def extend_def)
  have k: "styleStore R (bars A) = extendStyle (styleStore plot (bars s))"
    "styleStore R (lines A) = extendStyle (styleStore plot (lines s))"
    "styleStore R (points A) = extendStyle (styleStore plot (points s))"
    "styleStore R (bars B) = extendStyle (styleStore plot (bars s))"
    "styleStore R (lines B) = extendStyle (styleStore plot (lines s))"
    "styleStore R (points B) = extendStyle (styleStore plot (points s))"
    unfolding A_def B_def R_def s_def by (rule c)+
  have n: "nestedObjects (styleStore R (bars (seriesStore R series))) = nestedObjects (styleStore plot (bars s))"
    "nestedObjects (styleStore R (lines (seriesStore R series))) = nestedObjects (styleStore plot (lines s))"
    "nestedObjects (styleStore R (points (seriesStore R series))) = nestedObjects (styleStore plot (points s))"
    unfolding R_def s_def by (simp_all add: c(8) c(7) styleGroups_def nestedObjects_showFlag)
  have m: "nestedObjects (styleStore R (bars A)) = nestedObjects (styleStore plot (bars s))"
    "nestedObjects (styleStore R (lines A)) = nestedObjects (styleStore plot (lines s))"
    "nestedObjects (styleStore R (points A)) = nestedObjects (styleStore plot (points s))"
    "nestedObjects (styleStore R (bars B)) = nestedObjects (styleStore plot (bars s))"
    "nestedObjects (styleStore R (lines B)) = nestedObjects (styleStore plot (lines s))"
    "nestedObjects (styleStore R (points B)) = nestedObjects (styleStore plot (points s))"
    by (simp_all add: k nestedObjects_extendStyle)
  show ?thesis
    using i k [unfolded e] m n c(9) [of d dpts, folded R_def] by simp
qed

text \<open>On the example with the gradient: each copy of the bars has the flags and the
  defined properties of the subject's bars; hiding the bars of \<^verbatim>\<open>above\<close> afterwards
  leaves the bars of \<^verbatim>\<open>below\<close> shown and the subject's group as it is; and the bars of
  all three refer to the one gradient object at address 0.\<close>

theorem compareSeries_style_one_level_witness:
  "allocated exampleGradient exampleSubject
   \<and> partitionable exampleGradient exampleSubject exampleReference
   \<and> styleStore exampleGradientResult
        (bars (seriesStore exampleGradientResult (aboveOf exampleGradient exampleGradientResult)))
      = \<lparr>showFlag = True, horizontal = False,
          otherOpts = [(''lineWidth'', Num 2), (''fillColor'', Ref 0)]\<rparr>
   \<and> styleStore exampleGradientResult
        (bars (seriesStore exampleGradientResult (belowOf exampleGradient exampleGradientResult)))
      = \<lparr>showFlag = True, horizontal = False,
          otherOpts = [(''lineWidth'', Num 2), (''fillColor'', Ref 0)]\<rparr>
   \<and> \<not> showFlag (styleStore
         (setStyle (bars (seriesStore exampleGradientResult (aboveOf exampleGradient exampleGradientResult)))
            (\<lambda>g. g\<lparr>showFlag := False\<rparr>) exampleGradientResult)
         (bars (seriesStore exampleGradientResult (aboveOf exampleGradient exampleGradientResult))))
   \<and> showFlag (styleStore
         (setStyle (bars (seriesStore exampleGradientResult (aboveOf exampleGradient exampleGradientResult)))
            (\<lambda>g. g\<lparr>showFlag := False\<rparr>) exampleGradientResult)
         (bars (seriesStore exampleGradientResult (belowOf exampleGradient exampleGradientResult))))
   \<and> styleStore
         (setStyle (bars (seriesStore exampleGradientResult (aboveOf exampleGradient exampleGradientResult)))
            (\<lambda>g. g\<lparr>showFlag := False\<rparr>) exampleGradientResult)
         (bars (seriesStore exampleGradientResult exampleSubject))
       = styleStore exampleGradientResult (bars (seriesStore exampleGradientResult exampleSubject))
   \<and> nestedObjects (styleStore exampleGradientResult
        (bars (seriesStore exampleGradientResult (aboveOf exampleGradient exampleGradientResult)))) = [0]
   \<and> nestedObjects (styleStore exampleGradientResult
        (bars (seriesStore exampleGradientResult (belowOf exampleGradient exampleGradientResult)))) = [0]
   \<and> nestedObjects (styleStore exampleGradientResult
        (bars (seriesStore exampleGradientResult exampleSubject))) = [0]"
proof -
  note al = gradient_allocated and pa = gradient_partitionable
  note T = compareSeries_style_one_level [OF al pa,
      of "data (seriesStore exampleGradient exampleSubject)" exampleDatapoints,
      folded exampleGradientResult_def]
  let ?R = "exampleGradientResult"
  let ?A = "aboveOf exampleGradient ?R"
  let ?B = "belowOf exampleGradient ?R"
  let ?R' = "setStyle (bars (seriesStore ?R ?A)) (\<lambda>g. g\<lparr>showFlag := False\<rparr>) ?R"
  have c: "styleStore ?R (bars (seriesStore ?R ?A))
      = \<lparr>showFlag = True, horizontal = False,
          otherOpts = [(''lineWidth'', Num 2), (''fillColor'', Ref 0)]\<rparr>"
    "styleStore ?R (bars (seriesStore ?R ?B))
      = \<lparr>showFlag = True, horizontal = False,
          otherOpts = [(''lineWidth'', Num 2), (''fillColor'', Ref 0)]\<rparr>"
    using T by (simp_all add: gradient_bars)
  have n: "nestedObjects (styleStore ?R (bars (seriesStore ?R ?A))) = [0]"
    "nestedObjects (styleStore ?R (bars (seriesStore ?R ?B))) = [0]"
    "nestedObjects (styleStore ?R (bars (seriesStore ?R exampleSubject))) = [0]"
    using T by (simp_all add: gradient_bars nestedObjects_def map_filter_simps)
  have "independent ?R ?A ?B" and "independent ?R ?A exampleSubject"
    using T by simp_all
  then have i: "styleStore ?R' (bars (seriesStore ?R ?B)) = styleStore ?R (bars (seriesStore ?R ?B))"
    "styleStore ?R' (bars (seriesStore ?R exampleSubject)) = styleStore ?R (bars (seriesStore ?R exampleSubject))"
    by (simp_all add: independent_def styleGroups_def)
  have a: "\<not> showFlag (styleStore ?R' (bars (seriesStore ?R ?A)))"
    by (simp add: setStyle_def)
  show ?thesis
    using al pa c n i a by simp
qed

text \<open>C8 as the claim states it, a copy in depth, fails on the same example: an
  assignment to a property of the gradient object reached through the bars of
  \<^verbatim>\<open>above\<close> is seen through the bars of \<^verbatim>\<open>below\<close> and through the subject's.\<close>

theorem style_deep_copy_counterexample:
  "nestedObjects (styleStore exampleGradientResult
      (bars (seriesStore exampleGradientResult (aboveOf exampleGradient exampleGradientResult)))) = [0]
   \<and> nestedObjects (styleStore exampleGradientResult
      (bars (seriesStore exampleGradientResult (belowOf exampleGradient exampleGradientResult)))) = [0]
   \<and> nestedObjects (styleStore exampleGradientResult
      (bars (seriesStore exampleGradientResult exampleSubject))) = [0]
   \<and> objectStore exampleGradientResult 0 = [(''colors'', Ref 1)]
   \<and> objectStore (setObject 0 (\<lambda>_. [(''colors'', Null)]) exampleGradientResult) 0 = [(''colors'', Null)]
   \<and> \<not> deepIndependent exampleGradientResult
         (aboveOf exampleGradient exampleGradientResult) (belowOf exampleGradient exampleGradientResult)
   \<and> \<not> deepIndependent exampleGradientResult
         (aboveOf exampleGradient exampleGradientResult) exampleSubject"
proof -
  note al = gradient_allocated and pa = gradient_partitionable
  note c = partitioned_styles [OF al pa]
  let ?R = "exampleGradientResult"
  let ?A = "aboveOf exampleGradient ?R"
  let ?B = "belowOf exampleGradient ?R"
  have s: "seriesStore ?R exampleSubject = seriesStore exampleGradient exampleSubject"
    unfolding exampleGradientResult_def by (rule c(8))
  have n: "nestedObjects (styleStore ?R (bars (seriesStore ?R ?A))) = [0]"
    "nestedObjects (styleStore ?R (bars (seriesStore ?R ?B))) = [0]"
    "nestedObjects (styleStore ?R (bars (seriesStore ?R exampleSubject))) = [0]"
    unfolding s unfolding exampleGradientResult_def
    by (simp_all add: c styleGroups_def nestedObjects_extendStyle nestedObjects_showFlag
        gradient_nested)
  have o: "objectStore ?R 0 = [(''colors'', Ref 1)]"
    unfolding exampleGradientResult_def by (simp add: c(9) gradient_bars)
  have m: "objectStore (setObject 0 (\<lambda>_. [(''colors'', Null)]) ?R) 0 = [(''colors'', Null)]"
    by (simp add: setObject_def)
  have d: "\<not> deepIndependent ?R ?A y"
    if "nestedObjects (styleStore ?R (bars (seriesStore ?R y))) = [0]" for y
  proof
    assume "deepIndependent ?R ?A y"
    then have "objectStore (setObject 0 (\<lambda>_. [(''colors'', Null)]) ?R) 0 = objectStore ?R 0"
      using n(1) that by (auto simp add: deepIndependent_def styleGroups_def)
    then show False
      by (simp add: m o)
  qed
  show ?thesis
    using n o m d [OF n(2)] d [OF n(3)] by simp
qed

text \<open>C9: the series that \<open>copySeries\<close> returns has an empty data array, the label
  \<^verbatim>\<open>null\<close>, the colour it was given, \<^verbatim>\<open>originSeries\<close> set to the series it was copied
  from, and comparison disabled, so the hook leaves it alone when it is called for it.
  In a partitioning call the two copies get \<^verbatim>\<open>colorAbove\<close> and \<^verbatim>\<open>colorBelow\<close> of the
  subject, and the hook called for either of them afterwards only advances the
  counter.\<close>

theorem derived_series_at_creation:
  fixes plot :: "'a::linorder plot" and d d' :: addr and dpts dpts' :: "'a datapoints"
    and col :: "'a jsval"
  assumes "allocated plot series"
  defines "C \<equiv> copySeries plot series dpts col"
  defines "R \<equiv> compareSeries plot series d dpts"
  defines "s \<equiv> seriesStore plot series"
  shows "dataOf (fst C) (snd C) = []
       \<and> label (seriesStore (fst C) (snd C)) = Null
       \<and> color (seriesStore (fst C) (snd C)) = col
       \<and> originSeries (seriesStore (fst C) (snd C)) = Some series
       \<and> \<not> enabled (compare (seriesStore (fst C) (snd C)))
       \<and> compareSeries (fst C) (snd C) d' dpts' = (fst C)\<lparr>currentSeries := currentSeries (fst C) + 1\<rparr>
       \<and> (partitionable plot series reference \<longrightarrow>
             color (seriesStore R (aboveOf plot R)) = colorAbove (compare s)
           \<and> color (seriesStore R (belowOf plot R)) = colorBelow (compare s)
           \<and> label (seriesStore R (aboveOf plot R)) = Null
           \<and> label (seriesStore R (belowOf plot R)) = Null
           \<and> originSeries (seriesStore R (aboveOf plot R)) = Some series
           \<and> originSeries (seriesStore R (belowOf plot R)) = Some series
           \<and> \<not> enabled (compare (seriesStore R (aboveOf plot R)))
           \<and> \<not> enabled (compare (seriesStore R (belowOf plot R)))
           \<and> compareSeries R (aboveOf plot R) d' dpts' = R\<lparr>currentSeries := currentSeries R + 1\<rparr>
           \<and> compareSeries R (belowOf plot R) d' dpts' = R\<lparr>currentSeries := currentSeries R + 1\<rparr>)"
proof -
  have c: "dataOf (fst C) (snd C) = []"
    "label (seriesStore (fst C) (snd C)) = Null"
    "color (seriesStore (fst C) (snd C)) = col"
    "originSeries (seriesStore (fst C) (snd C)) = Some series"
    "\<not> enabled (compare (seriesStore (fst C) (snd C)))"
    unfolding C_def copySeries_allocated [OF assms(1)]
    by (simp_all add: dataOf_def derived_def)
  have n: "compareSeries (fst C) (snd C) d' dpts' = (fst C)\<lparr>currentSeries := currentSeries (fst C) + 1\<rparr>"
    using c(5) by (rule compareSeries_disabled)
  have p: "color (seriesStore R (aboveOf plot R)) = colorAbove (compare s)
           \<and> color (seriesStore R (belowOf plot R)) = colorBelow (compare s)
           \<and> label (seriesStore R (aboveOf plot R)) = Null
           \<and> label (seriesStore R (belowOf plot R)) = Null
           \<and> originSeries (seriesStore R (aboveOf plot R)) = Some series
           \<and> originSeries (seriesStore R (belowOf plot R)) = Some series
           \<and> \<not> enabled (compare (seriesStore R (aboveOf plot R)))
           \<and> \<not> enabled (compare (seriesStore R (belowOf plot R)))
           \<and> compareSeries R (aboveOf plot R) d' dpts' = R\<lparr>currentSeries := currentSeries R + 1\<rparr>
           \<and> compareSeries R (belowOf plot R) d' dpts' = R\<lparr>currentSeries := currentSeries R + 1\<rparr>"
    if pa: "partitionable plot series reference"
  proof -
    note R = compareSeries_partitioned [OF assms(1) pa, of d dpts]
    note ab = partitioned_aboveOf [OF assms(1) pa, of d dpts]
    have f: "color (seriesStore R (aboveOf plot R)) = colorAbove (compare s)"
      "color (seriesStore R (belowOf plot R)) = colorBelow (compare s)"
      "label (seriesStore R (aboveOf plot R)) = Null"
      "label (seriesStore R (belowOf plot R)) = Null"
      "originSeries (seriesStore R (aboveOf plot R)) = Some series"
      "originSeries (seriesStore R (belowOf plot R)) = Some series"
      "\<not> enabled (compare (seriesStore R (aboveOf plot R)))"
      "\<not> enabled (compare (seriesStore R (belowOf plot R)))"
      unfolding R_def ab s_def by (simp_all add: R derived_def)
    show ?thesis
      using f compareSeries_disabled [OF f(7)] compareSeries_disabled [OF f(8)] by simp
  qed
  show ?thesis
    using c n p by blast
qed

theorem derived_series_at_creation_witness:
  "allocated (examplePlot False) exampleSubject
   \<and> partitionable (examplePlot False) exampleSubject exampleReference
   \<and> dataOf (fst (copySeries (examplePlot False) exampleSubject exampleDatapoints (Str ''#FF0000'')))
         (snd (copySeries (examplePlot False) exampleSubject exampleDatapoints (Str ''#FF0000''))) = []
   \<and> color (seriesStore (fst (copySeries (examplePlot False) exampleSubject exampleDatapoints (Str ''#FF0000'')))
         (snd (copySeries (examplePlot False) exampleSubject exampleDatapoints (Str ''#FF0000''))))
       = Str ''#FF0000''
   \<and> color (seriesStore (exampleResult False) (aboveOf (examplePlot False) (exampleResult False)))
       = Str ''#FF0000''
   \<and> color (seriesStore (exampleResult False) (belowOf (examplePlot False) (exampleResult False)))
       = Str ''#00FF00''
   \<and> label (seriesStore (examplePlot False) exampleSubject) = Str ''series''
   \<and> label (seriesStore (exampleResult False) (aboveOf (examplePlot False) (exampleResult False))) = Null
   \<and> label (seriesStore (exampleResult False) (belowOf (examplePlot False) (exampleResult False))) = Null
   \<and> originSeries (seriesStore (exampleResult False) (aboveOf (examplePlot False) (exampleResult False)))
       = Some exampleSubject
   \<and> originSeries (seriesStore (exampleResult False) (belowOf (examplePlot False) (exampleResult False)))
       = Some exampleSubject
   \<and> enabled (compare (seriesStore (examplePlot False) exampleSubject))
   \<and> \<not> enabled (compare (seriesStore (exampleResult False) (aboveOf (examplePlot False) (exampleResult False))))
   \<and> \<not> enabled (compare (seriesStore (exampleResult False) (belowOf (examplePlot False) (exampleResult False))))
   \<and> compareSeries (exampleResult False) (aboveOf (examplePlot False) (exampleResult False)) 2 exampleDatapoints
       = (exampleResult False)\<lparr>currentSeries := currentSeries (exampleResult False) + 1\<rparr>
   \<and> compareSeries (exampleResult False) (belowOf (examplePlot False) (exampleResult False)) 2 exampleDatapoints
       = (exampleResult False)\<lparr>currentSeries := currentSeries (exampleResult False) + 1\<rparr>"
proof -
  note al = example_allocated [of False] and pa = example_partitionable [of False]
  note T = derived_series_at_creation [OF al,
      of exampleDatapoints "Str ''#FF0000''" 2 exampleDatapoints exampleReference
         "data (seriesStore (examplePlot False) exampleSubject)",
      folded exampleResult_def]
  have c: "colorAbove (compare (seriesStore (examplePlot False) exampleSubject)) = Str ''#FF0000''"
    "colorBelow (compare (seriesStore (examplePlot False) exampleSubject)) = Str ''#00FF00''"
    "label (seriesStore (examplePlot False) exampleSubject) = Str ''series''"
    "enabled (compare (seriesStore (examplePlot False) exampleSubject))"
    by (simp_all add: examplePlot_def exampleSeries_def options_series_compare_def exampleSubject_def)
  show ?thesis
    using al pa T by (simp add: c)
qed

text \<open>C10: a partitionable subject with no points is still partitioned: two series
  with empty data are appended to the series list and the subject's three \<^verbatim>\<open>show\<close>
  flags are false afterwards, so the call is not the no-op of C4.\<close>

theorem compareSeries_empty_subject:
  fixes plot :: "'a::linorder plot" and d :: addr and dpts :: "'a datapoints"
  assumes "allocated plot series" and "partitionable plot series reference"
    and "dataOf plot series = []"
  defines "R \<equiv> compareSeries plot series d dpts"
  defines "s \<equiv> seriesStore plot series"
  shows "getData R = getData plot @ [aboveOf plot R, belowOf plot R]
       \<and> aboveOf plot R = nextSeries plot \<and> belowOf plot R = Suc (nextSeries plot)
       \<and> dataOf R (aboveOf plot R) = []
       \<and> dataOf R (belowOf plot R) = []
       \<and> \<not> showFlag (styleStore R (bars s))
       \<and> \<not> showFlag (styleStore R (lines s))
       \<and> \<not> showFlag (styleStore R (points s))
       \<and> R \<noteq> plot\<lparr>currentSeries := currentSeries plot + 1\<rparr>"
proof -
  note R = compareSeries_partitioned [OF assms(1,2), of d dpts]
  note ab = partitioned_aboveOf [OF assms(1,2), of d dpts]
  note pd = partitioned_data [OF assms(1,2), of d dpts]
  have g: "getData R = getData plot @ [aboveOf plot R, belowOf plot R]"
    unfolding R_def ab by (simp add: R)
  have e: "dataOf R (aboveOf plot R) = []" "dataOf R (belowOf plot R) = []"
    unfolding R_def pd by (simp_all add: assms(3))
  have h: "\<not> showFlag (styleStore R (bars s))" "\<not> showFlag (styleStore R (lines s))"
    "\<not> showFlag (styleStore R (points s))"
    unfolding R_def s_def by (simp_all add: R hide_def)
  have "getData R \<noteq> getData (plot\<lparr>currentSeries := currentSeries plot + 1\<rparr>)"
    by (simp add: g)
  then have n: "R \<noteq> plot\<lparr>currentSeries := currentSeries plot + 1\<rparr>"
    by auto
  show ?thesis
    using g e h n ab by (simp add: R_def)
qed

theorem compareSeries_empty_subject_witness:
  "allocated exampleEmpty exampleSubject
   \<and> partitionable exampleEmpty exampleSubject exampleReference
   \<and> dataOf exampleEmpty exampleSubject = []
   \<and> getData exampleEmpty = [0, 1]
   \<and> getData (compareSeries exampleEmpty exampleSubject 1 exampleDatapoints) = [0, 1, 2, 3]
   \<and> dataOf (compareSeries exampleEmpty exampleSubject 1 exampleDatapoints) 2 = []
   \<and> dataOf (compareSeries exampleEmpty exampleSubject 1 exampleDatapoints) 3 = []
   \<and> showFlag (styleStore exampleEmpty (bars (seriesStore exampleEmpty exampleSubject)))
   \<and> \<not> showFlag (styleStore (compareSeries exampleEmpty exampleSubject 1 exampleDatapoints)
           (bars (seriesStore exampleEmpty exampleSubject)))
   \<and> \<not> showFlag (styleStore (compareSeries exampleEmpty exampleSubject 1 exampleDatapoints)
           (lines (seriesStore exampleEmpty exampleSubject)))
   \<and> \<not> showFlag (styleStore (compareSeries exampleEmpty exampleSubject 1 exampleDatapoints)
           (points (seriesStore exampleEmpty exampleSubject)))"
proof -
  have al: "allocated exampleEmpty exampleSubject"
    using example_allocated [of False] by (simp add: allocated_def exampleEmpty_def)
  have pa: "partitionable exampleEmpty exampleSubject exampleReference"
    by (simp add: partitionable_def subjectPosition_def getSeries_def exampleEmpty_def
        examplePlot_def exampleSeries_def options_series_compare_def exampleSubject_def exampleReference_def)
  have em: "dataOf exampleEmpty exampleSubject = []"
    by (simp add: dataOf_def exampleEmpty_def)
  have n: "nextSeries exampleEmpty = 2" "getData exampleEmpty = [0, 1]"
    "showFlag (styleStore exampleEmpty (bars (seriesStore exampleEmpty exampleSubject)))"
    by (simp_all add: exampleEmpty_def examplePlot_def exampleSeries_def options_series_compare_def exampleStyle_def
        exampleSubject_def)
  note T = compareSeries_empty_subject [OF al pa em, of 1 exampleDatapoints]
  have ab: "aboveOf exampleEmpty (compareSeries exampleEmpty exampleSubject 1 exampleDatapoints) = 2"
    "belowOf exampleEmpty (compareSeries exampleEmpty exampleSubject 1 exampleDatapoints) = 3"
    using T by (simp_all add: n)
  show ?thesis
    using al pa em T [unfolded ab] by (simp add: n)
qed

end
